theory Spec2Isabelle
  imports Complex_Main
begin

section \<open>Python values and builtins used by the models\<close>

text \<open>
  A decoded JSON payload. Python's \<open>float\<close> is modelled by the real numbers (rounding,
  infinities and NaN are outside the model), Python's \<open>int\<close> is unbounded, a \<open>str\<close> is a
  list of characters, and a \<open>dict\<close> is an association list in insertion order whose
  lookup takes the first entry of a key.
\<close>

datatype json =
    JNull
  | JBool bool
  | JInt int
  | JFloat real
  | JStr string
  | JList "json list"
  | JDict "(string \<times> json) list"

datatype py_error =
    ValueError | TypeError | AttributeError | KeyError | OverflowError | ValidationError

text \<open>
  Behaviour of the interpreter and of the validation library that the repository calls but
  does not define: parsing a \<open>str\<close> with \<open>int()\<close> and \<open>float()\<close> (\<open>None\<close> is
  \<open>ValueError\<close>), \<open>str()\<close> of a float, list or dict, and what the validation of a
  \<open>str\<close> field makes of a value that is not a \<open>str\<close> (\<open>None\<close> is a validation error).
\<close>

record py_env =
  int_of_str :: "string \<Rightarrow> int option"
  float_of_str :: "string \<Rightarrow> real option"
  repr_of :: "json \<Rightarrow> string"
  str_field :: "json \<Rightarrow> string option"

definition bindE :: "py_error + 'a \<Rightarrow> ('a \<Rightarrow> py_error + 'b) \<Rightarrow> py_error + 'b" where
  "bindE r f = (case r of Inl e \<Rightarrow> Inl e | Inr a \<Rightarrow> f a)"

text \<open>A loop whose body may raise: the first exception ends it.\<close>

fun foldE :: "('s \<Rightarrow> 'a \<Rightarrow> py_error + 's) \<Rightarrow> 's \<Rightarrow> 'a list \<Rightarrow> py_error + 's" where
  "foldE f s [] = Inr s"
| "foldE f s (x # xs) = bindE (f s x) (\<lambda>s'. foldE f s' xs)"

text \<open>
  \<open>max(xs, key=f)\<close> and \<open>min(xs, key=f)\<close> on a list with first element \<open>best\<close>: the
  first element with the largest (smallest) key is kept.
\<close>

fun max_by :: "('a \<Rightarrow> real) \<Rightarrow> 'a \<Rightarrow> 'a list \<Rightarrow> 'a" where
  "max_by f best [] = best"
| "max_by f best (x # xs) = max_by f (if f x > f best then x else best) xs"

fun min_by :: "('a \<Rightarrow> real) \<Rightarrow> 'a \<Rightarrow> 'a list \<Rightarrow> 'a" where
  "min_by f best [] = best"
| "min_by f best (x # xs) = min_by f (if f x < f best then x else best) xs"

text \<open>
  Dicts in insertion order. \<open>d[k] = v\<close> keeps the place of a key already there;
  \<open>dict_append\<close> is \<open>if k not in d: d[k] = []\<close> followed by \<open>d[k].append(v)\<close>.
\<close>

fun dict_set :: "('k \<times> 'v) list \<Rightarrow> 'k \<Rightarrow> 'v \<Rightarrow> ('k \<times> 'v) list" where
  "dict_set [] k v = [(k, v)]"
| "dict_set ((k', v') # kvs) k v =
     (if k' = k then (k, v) # kvs else (k', v') # dict_set kvs k v)"

fun dict_append :: "('k \<times> 'v list) list \<Rightarrow> 'k \<Rightarrow> 'v \<Rightarrow> ('k \<times> 'v list) list" where
  "dict_append [] k v = [(k, [v])]"
| "dict_append ((k', vs) # kvs) k v =
     (if k' = k then (k', vs @ [v]) # kvs else (k', vs) # dict_append kvs k v)"

text \<open>Truth value of an object, as \<open>bool(x)\<close> and \<open>if x\<close> compute it.\<close>

fun truthy :: "json \<Rightarrow> bool" where
  "truthy JNull = False"
| "truthy (JBool b) = b"
| "truthy (JInt n) = (n \<noteq> 0)"
| "truthy (JFloat x) = (x \<noteq> 0)"
| "truthy (JStr s) = (s \<noteq> [])"
| "truthy (JList xs) = (xs \<noteq> [])"
| "truthy (JDict kvs) = (kvs \<noteq> [])"

fun is_dict :: "json \<Rightarrow> bool" where
  "is_dict (JDict kvs) = True"
| "is_dict v = False"

text \<open>\<open>k in d\<close> and \<open>d[k]\<close> for a value already known to be a dict.\<close>

fun has_key :: "json \<Rightarrow> string \<Rightarrow> bool" where
  "has_key (JDict kvs) k = (map_of kvs k \<noteq> None)"
| "has_key v k = False"

fun item_at :: "json \<Rightarrow> string \<Rightarrow> json" where
  "item_at (JDict kvs) k = (case map_of kvs k of Some v \<Rightarrow> v | None \<Rightarrow> JNull)"
| "item_at v k = JNull"


text \<open>
  \<open>str.isspace\<close> on the code points below 256, and the test \<open>not value.strip()\<close>, which
  holds exactly when every character of the string is whitespace.
\<close>

definition py_isspace :: "char \<Rightarrow> bool" where
  "py_isspace c = (let n = (of_char c :: nat) in
     (9 \<le> n \<and> n \<le> 13) \<or> (28 \<le> n \<and> n \<le> 32) \<or> n = 133 \<or> n = 160)"

definition strip_empty :: "string \<Rightarrow> bool" where
  "strip_empty s = list_all py_isspace s"

text \<open>\<open>str(n)\<close> for an integer.\<close>

fun digits_of_nat :: "nat \<Rightarrow> string" where
  "digits_of_nat n =
     (if n < 10 then [char_of (48 + n)]
      else digits_of_nat (n div 10) @ [char_of (48 + n mod 10)])"

declare digits_of_nat.simps [simp del]

definition str_of_int :: "int \<Rightarrow> string" where
  "str_of_int i = (if i < 0 then CHR ''-'' # digits_of_nat (nat (- i)) else digits_of_nat (nat i))"

fun py_str :: "py_env \<Rightarrow> json \<Rightarrow> string" where
  "py_str E JNull = ''None''"
| "py_str E (JBool b) = (if b then ''True'' else ''False'')"
| "py_str E (JInt n) = str_of_int n"
| "py_str E (JStr s) = s"
| "py_str E v = repr_of E v"

text \<open>
  \<open>int(value)\<close>. A float is truncated towards zero; a list, a dict or \<open>None\<close> is a
  \<open>TypeError\<close>; a string that does not parse is a \<open>ValueError\<close>.
\<close>

definition trunc :: "real \<Rightarrow> int" where
  "trunc x = (if 0 \<le> x then \<lfloor>x\<rfloor> else \<lceil>x\<rceil>)"

fun py_int :: "py_env \<Rightarrow> json \<Rightarrow> py_error + int" where
  "py_int E (JBool b) = Inr (if b then 1 else 0)"
| "py_int E (JInt n) = Inr n"
| "py_int E (JFloat x) = Inr (trunc x)"
| "py_int E (JStr s) = (case int_of_str E s of Some n \<Rightarrow> Inr n | None \<Rightarrow> Inl ValueError)"
| "py_int E v = Inl TypeError"

text \<open>
  \<open>float(value)\<close>. An integer that rounds to \<open>2 ^ 1024\<close> or beyond has no double and
  raises \<open>OverflowError\<close>.
\<close>

fun py_float :: "py_env \<Rightarrow> json \<Rightarrow> py_error + real" where
  "py_float E (JBool b) = Inr (if b then 1 else 0)"
| "py_float E (JInt n) =
     (if \<bar>n\<bar> < 2 ^ 1024 - 2 ^ 970 then Inr (real_of_int n) else Inl OverflowError)"
| "py_float E (JFloat x) = Inr x"
| "py_float E (JStr s) = (case float_of_str E s of Some x \<Rightarrow> Inr x | None \<Rightarrow> Inl ValueError)"
| "py_float E v = Inl TypeError"

text \<open>
  \<open>round(x, ndigits)\<close> on the exact value: to the nearest multiple of \<open>10 ^ -ndigits\<close>,
  a tie going to the even neighbour.
\<close>

definition py_round :: "nat \<Rightarrow> real \<Rightarrow> real" where
  "py_round ndigits x =
     (let y = x * 10 ^ ndigits; f = \<lfloor>y\<rfloor>; d = y - of_int f
      in (if d < 1 / 2 then of_int f
          else if d > 1 / 2 then of_int (f + 1)
          else if even f then of_int f else of_int (f + 1)) / 10 ^ ndigits)"

section \<open>models/common.py\<close>

fun unwrap_item :: "string \<Rightarrow> json \<Rightarrow> json" where
  "unwrap_item item_key item =
     (if is_dict item \<and> has_key item item_key then item_at item item_key else item)"

fun extract_list_items :: "json \<Rightarrow> string \<Rightarrow> json list" where
  "extract_list_items data item_key =
     (if \<not> truthy data then []
      else case data of
        JDict kvs \<Rightarrow> (if has_key data item_key then [item_at data item_key] else [data])
      | JList xs \<Rightarrow> map (unwrap_item item_key) xs
      | _ \<Rightarrow> [])"

text \<open>
  The \<open>try\<close> block of \<open>safe_int\<close> and \<open>safe_float\<close> catches \<open>ValueError\<close> and
  \<open>TypeError\<close> only; any other exception leaves the function.
\<close>

fun or_default :: "'a \<Rightarrow> py_error + 'a \<Rightarrow> py_error + 'a" where
  "or_default d (Inr v) = Inr v"
| "or_default d (Inl ValueError) = Inr d"
| "or_default d (Inl TypeError) = Inr d"
| "or_default d (Inl e) = Inl e"

fun safe_int :: "py_env \<Rightarrow> json \<Rightarrow> int \<Rightarrow> py_error + int" where
  "safe_int E JNull d = Inr d"
| "safe_int E (JStr s) d = (if strip_empty s then Inr d else or_default d (py_int E (JStr s)))"
| "safe_int E v d = or_default d (py_int E v)"

fun safe_float :: "py_env \<Rightarrow> json \<Rightarrow> real \<Rightarrow> py_error + real" where
  "safe_float E JNull d = Inr d"
| "safe_float E (JStr s) d = (if strip_empty s then Inr d else or_default d (py_float E (JStr s)))"
| "safe_float E v d = or_default d (py_float E v)"

fun safe_str :: "py_env \<Rightarrow> json \<Rightarrow> string \<Rightarrow> string" where
  "safe_str E JNull d = d"
| "safe_str E v d = py_str E v"

section \<open>models/matchup.py\<close>




record TeamScore =
  team_key :: string
  team_id :: string
  team_name :: string
  ts_week :: int
  points :: real
  projected_points :: "real option"
  roster_positions :: "json list"
  ts_is_tied :: bool
  ts_is_playoffs :: bool






record Matchup =
  week :: int
  matchup_id :: "string option"
  team1 :: TeamScore
  team2 :: TeamScore
  winner_team_key :: "string option"
  margin_of_victory :: real
  is_tied :: bool
  status :: string
  is_playoffs :: bool
  playoff_tier :: "int option"
  is_consolation :: bool




definition get_winning_team :: "Matchup \<Rightarrow> TeamScore option" where
  "get_winning_team m =
     (if is_tied m then None
      else Some (if points (team1 m) > points (team2 m) then team1 m else team2 m))"

definition get_losing_team :: "Matchup \<Rightarrow> TeamScore option" where
  "get_losing_team m =
     (if is_tied m then None
      else Some (if points (team1 m) > points (team2 m) then team2 m else team1 m))"

definition get_team_opponent :: "Matchup \<Rightarrow> string \<Rightarrow> TeamScore option" where
  "get_team_opponent m key =
     (if team_key (team1 m) = key then Some (team2 m)
      else if team_key (team2 m) = key then Some (team1 m)
      else None)"

record WeeklyScoreboard =
  sb_week :: int
  league_key :: string
  matchups :: "Matchup list"
  is_current_week :: bool
  week_start :: "string option"
  week_end :: "string option"

fun get_matchup_by_team :: "Matchup list \<Rightarrow> string \<Rightarrow> Matchup option" where
  "get_matchup_by_team [] key = None"
| "get_matchup_by_team (m # ms) key =
     (if team_key (team1 m) = key \<or> team_key (team2 m) = key then Some m
      else get_matchup_by_team ms key)"

definition get_team_score :: "WeeklyScoreboard \<Rightarrow> string \<Rightarrow> TeamScore option" where
  "get_team_score sb key =
     (case get_matchup_by_team (matchups sb) key of
        None \<Rightarrow> None
      | Some m \<Rightarrow>
          (if team_key (team1 m) = key then Some (team1 m)
           else if team_key (team2 m) = key then Some (team2 m)
           else None))"

text \<open>
  The season: \<open>weekly_scoreboards\<close> is the dict from week number to scoreboard, in
  insertion order, each week at most once; \<open>add_week\<close> overwrites the entry of a week
  already stored.
\<close>

record SeasonResults =
  sr_league_key :: string
  season :: string
  weekly_scoreboards :: "(int \<times> WeeklyScoreboard) list"

definition add_week :: "SeasonResults \<Rightarrow> WeeklyScoreboard \<Rightarrow> SeasonResults" where
  "add_week sr sb = sr\<lparr>weekly_scoreboards := dict_set (weekly_scoreboards sr) (sb_week sb) sb\<rparr>"

record TeamRecord =
  wins :: nat
  losses :: nat
  ties :: nat

definition record_week :: "string \<Rightarrow> TeamRecord \<Rightarrow> int \<times> WeeklyScoreboard \<Rightarrow> TeamRecord" where
  "record_week key r wsb =
     (case get_matchup_by_team (matchups (snd wsb)) key of
        None \<Rightarrow> r
      | Some m \<Rightarrow>
          (if status m = ''postevent'' then
             (if is_tied m then r\<lparr>ties := ties r + 1\<rparr>
              else if winner_team_key m = Some key then r\<lparr>wins := wins r + 1\<rparr>
              else r\<lparr>losses := losses r + 1\<rparr>)
           else r))"

definition get_team_record :: "SeasonResults \<Rightarrow> string \<Rightarrow> TeamRecord" where
  "get_team_record sr key =
     foldl (record_week key) \<lparr> wins = 0, losses = 0, ties = 0 \<rparr> (weekly_scoreboards sr)"

definition total_week :: "string \<Rightarrow> real \<Rightarrow> int \<times> WeeklyScoreboard \<Rightarrow> real" where
  "total_week key total_points wsb =
     (case get_team_score (snd wsb) key of
        None \<Rightarrow> total_points
      | Some team_score \<Rightarrow> total_points + points team_score)"

definition get_team_total_points :: "SeasonResults \<Rightarrow> string \<Rightarrow> real" where
  "get_team_total_points sr key = foldl (total_week key) 0 (weekly_scoreboards sr)"

section \<open>models/roster.py\<close>

record PlayerStats =
  player_key :: string
  player_id :: string
  name :: string
  position :: string
  team :: "string option"
  ps_points :: real
  ps_projected_points :: "real option"
  selected_position :: string
  is_starter :: bool
  passing_yards :: "real option"
  passing_tds :: "int option"
  rushing_yards :: "real option"
  rushing_tds :: "int option"
  receiving_yards :: "real option"
  receiving_tds :: "int option"
  receptions :: "int option"










record TeamRoster =
  tr_team_key :: string
  tr_team_name :: string
  tr_week :: int
  players :: "PlayerStats list"
  starters :: "PlayerStats list"
  bench :: "PlayerStats list"
  total_points :: real
  starter_points :: real
  bench_points :: real



text \<open>The totals and the constructor call, from the three lists the loop leaves.\<close>

definition new_TeamRoster ::
  "string \<Rightarrow> string \<Rightarrow> int \<Rightarrow> PlayerStats list \<times> PlayerStats list \<times> PlayerStats list \<Rightarrow>
   TeamRoster" where
  "new_TeamRoster tkey tname wk st =
     (case st of (ps, ss, bs) \<Rightarrow>
        \<lparr> tr_team_key = tkey, tr_team_name = tname, tr_week = wk,
          players = ps, starters = ss, bench = bs,
          total_points = sum_list (map ps_points ps),
          starter_points = sum_list (map ps_points ss),
          bench_points = sum_list (map ps_points bs) \<rparr>)"



section \<open>models/detailed_matchup.py\<close>

record PositionMatchup =
  pm_position :: string
  team1_player :: "PlayerStats option"
  team2_player :: "PlayerStats option"

definition points_difference :: "PositionMatchup \<Rightarrow> real" where
  "points_difference pm =
     (case team1_player pm of Some p \<Rightarrow> ps_points p | None \<Rightarrow> 0)
     - (case team2_player pm of Some p \<Rightarrow> ps_points p | None \<Rightarrow> 0)"

record DetailedMatchup =
  dm_week :: int
  dm_matchup_id :: "string option"
  team1_roster :: TeamRoster
  team2_roster :: TeamRoster
  starter_matchups :: "PositionMatchup list"
  bench_matchups :: "PositionMatchup list"

text \<open>The dict from selected position to the starters in it, in roster order.\<close>

definition group_by_position :: "PlayerStats list \<Rightarrow> (string \<times> PlayerStats list) list" where
  "group_by_position ps = foldl (\<lambda>d p. dict_append d (selected_position p) p) [] ps"

text \<open>\<open>positions.get(pos, [])\<close> and \<open>xs[i] if i < len(xs) else None\<close>.\<close>

definition players_at :: "(string \<times> PlayerStats list) list \<Rightarrow> string \<Rightarrow> PlayerStats list" where
  "players_at d pos = (case map_of d pos of Some ps \<Rightarrow> ps | None \<Rightarrow> [])"

definition nth_or_none :: "'a list \<Rightarrow> nat \<Rightarrow> 'a option" where
  "nth_or_none xs i = (if i < length xs then Some (xs ! i) else None)"

definition position_order :: "string list" where
  "position_order = [''QB'', ''RB'', ''WR'', ''TE'', ''W/R/T'', ''K'', ''DEF'', ''IR'']"

definition slot_count ::
  "(string \<times> PlayerStats list) list \<Rightarrow> (string \<times> PlayerStats list) list \<Rightarrow> string \<Rightarrow> nat" where
  "slot_count d1 d2 pos = max (length (players_at d1 pos)) (length (players_at d2 pos))"

text \<open>
  \<open>sorted_positions\<close>: the standard positions first, then the others in the order in
  which the set \<open>all_positions\<close> is iterated. That order is not fixed by the language; it
  is the parameter \<open>set_iter\<close>, which lists the elements of a set, each once.
\<close>

definition sorted_positions ::
  "(string set \<Rightarrow> string list) \<Rightarrow> (string \<times> PlayerStats list) list \<Rightarrow>
   (string \<times> PlayerStats list) list \<Rightarrow> string list" where
  "sorted_positions set_iter d1 d2 =
     (let all_positions = set (map fst d1) \<union> set (map fst d2)
      in concat (map (\<lambda>pos. if pos \<in> all_positions
                             then replicate (slot_count d1 d2 pos) pos else [])
                   position_order)
         @ concat (map (\<lambda>pos. if pos \<notin> set position_order
                               then replicate (slot_count d1 d2 pos) pos else [])
                     (set_iter all_positions)))"

text \<open>
  The pairing loop on the state \<open>(position_counts, starter_matchups)\<close>; the counter of a
  position starts at 0 when the position is first met.
\<close>

definition count_of :: "(string \<Rightarrow> nat option) \<Rightarrow> string \<Rightarrow> nat" where
  "count_of position_counts pos = (case position_counts pos of Some c \<Rightarrow> c | None \<Rightarrow> 0)"

definition pair_slot ::
  "(string \<times> PlayerStats list) list \<Rightarrow> (string \<times> PlayerStats list) list \<Rightarrow>
   (string \<Rightarrow> nat option) \<times> PositionMatchup list \<Rightarrow> string \<Rightarrow>
   (string \<Rightarrow> nat option) \<times> PositionMatchup list" where
  "pair_slot d1 d2 st pos =
     (case st of (position_counts, ms) \<Rightarrow>
        (let c = count_of position_counts pos
         in (position_counts(pos \<mapsto> c + 1),
             ms @ [\<lparr> pm_position = pos,
                     team1_player = nth_or_none (players_at d1 pos) c,
                     team2_player = nth_or_none (players_at d2 pos) c \<rparr>])))"

text \<open>
  The bench comparisons: each bench by points, \<open>reverse=True\<close> (descending, equal points
  in their former order), paired by index.
\<close>

definition bench_pairs :: "PlayerStats list \<Rightarrow> PlayerStats list \<Rightarrow> PositionMatchup list" where
  "bench_pairs b1 b2 =
     (let team1_bench = sort_key (\<lambda>p. - ps_points p) b1;
          team2_bench = sort_key (\<lambda>p. - ps_points p) b2
      in map (\<lambda>i. \<lparr> pm_position = ''BN'',
                     team1_player = nth_or_none team1_bench i,
                     team2_player = nth_or_none team2_bench i \<rparr>)
           [0 ..< max (length team1_bench) (length team2_bench)])"

definition create ::
  "(string set \<Rightarrow> string list) \<Rightarrow> TeamRoster \<Rightarrow> TeamRoster \<Rightarrow> int \<Rightarrow> string option \<Rightarrow>
   DetailedMatchup" where
  "create set_iter r1 r2 wk mid =
     (let team1_positions = group_by_position (starters r1);
          team2_positions = group_by_position (starters r2)
      in \<lparr> dm_week = wk, dm_matchup_id = mid, team1_roster = r1, team2_roster = r2,
            starter_matchups =
              snd (foldl (pair_slot team1_positions team2_positions) (Map.empty, [])
                     (sorted_positions set_iter team1_positions team2_positions)),
            bench_matchups = bench_pairs (bench r1) (bench r2) \<rparr>)"

text \<open>
  The specification's words: the starters of a roster in a slot, the set of slots either
  team fills, and the pairing of the \<open>i\<close>-th occupants of a slot.
\<close>

definition occupants :: "TeamRoster \<Rightarrow> string \<Rightarrow> PlayerStats list" where
  "occupants r pos = filter (\<lambda>p. selected_position p = pos) (starters r)"

definition filled_slots :: "TeamRoster \<Rightarrow> TeamRoster \<Rightarrow> string set" where
  "filled_slots r1 r2 = selected_position ` set (starters r1) \<union> selected_position ` set (starters r2)"

definition pairing :: "TeamRoster \<Rightarrow> TeamRoster \<Rightarrow> string \<Rightarrow> nat \<Rightarrow> PositionMatchup" where
  "pairing r1 r2 pos i =
     \<lparr> pm_position = pos,
       team1_player = nth_or_none (occupants r1 pos) i,
       team2_player = nth_or_none (occupants r2 pos) i \<rparr>"

text \<open>The slots in the order in which a position code is first met, team 1 before team 2.\<close>

definition first_seen :: "TeamRoster \<Rightarrow> TeamRoster \<Rightarrow> string list" where
  "first_seen r1 r2 = rev (remdups (rev (map selected_position (starters r1 @ starters r2))))"

text \<open>The slots in the order of the pairing: the standard ones, then the others.\<close>

definition slots_of ::
  "(string set \<Rightarrow> string list) \<Rightarrow> TeamRoster \<Rightarrow> TeamRoster \<Rightarrow> string list" where
  "slots_of set_iter r1 r2 =
     position_order @ filter (\<lambda>pos. pos \<notin> set position_order) (set_iter (filled_slots r1 r2))"

section \<open>analysis.py: the skins game\<close>

record SkinsWin =
  sw_week :: int
  margin :: real
  pot_amount :: real
  opponent :: string

record PotentialWinner =
  pw_team :: TeamScore
  pw_margin :: real
  pw_matchup :: Matchup

text \<open>
  The inner loop that collects \<open>potential_winners\<close>. An object of a model class is
  true, so \<open>if winner\<close> fails for \<open>None\<close> only.
\<close>

definition potential_winner :: "real \<Rightarrow> PotentialWinner list \<Rightarrow> Matchup \<Rightarrow> PotentialWinner list" where
  "potential_winner min_skins_margin acc m =
     (if \<not> is_tied m \<and> status m = ''postevent'' \<and> margin_of_victory m \<ge> min_skins_margin
      then (case get_winning_team m of
              Some winner \<Rightarrow>
                acc @ [\<lparr> pw_team = winner, pw_margin = margin_of_victory m, pw_matchup = m \<rparr>]
            | None \<Rightarrow> acc)
      else acc)"

definition potential_winners :: "real \<Rightarrow> WeeklyScoreboard \<Rightarrow> PotentialWinner list" where
  "potential_winners min_skins_margin scoreboard =
     foldl (potential_winner min_skins_margin) [] (matchups scoreboard)"

text \<open>
  One week of the outer loop, on the state \<open>(skins_winners, current_pot)\<close>. Reading a
  week that is not stored is a \<open>KeyError\<close>, and \<open>.team_name\<close> of a missing opponent an
  \<open>AttributeError\<close>.
\<close>

definition skins_week ::
  "real \<Rightarrow> real \<Rightarrow> SeasonResults \<Rightarrow> (string \<times> SkinsWin list) list \<times> real \<Rightarrow> int \<Rightarrow>
   py_error + (string \<times> SkinsWin list) list \<times> real" where
  "skins_week min_skins_margin weekly_pot sr st week_num =
     (case st of (skins_winners, current_pot) \<Rightarrow>
        case map_of (weekly_scoreboards sr) week_num of
          None \<Rightarrow> Inl KeyError
        | Some scoreboard \<Rightarrow>
            (case potential_winners min_skins_margin scoreboard of
               [] \<Rightarrow> Inr (skins_winners, current_pot + weekly_pot)
             | c # cs \<Rightarrow>
                 (let week_winner = max_by pw_margin c cs;
                      winning_team = pw_team week_winner
                  in case get_team_opponent (pw_matchup week_winner) (team_key winning_team) of
                       None \<Rightarrow> Inl AttributeError
                     | Some opp \<Rightarrow>
                         Inr (dict_append skins_winners (team_name winning_team)
                                \<lparr> sw_week = week_num, margin = pw_margin week_winner,
                                  pot_amount = current_pot, opponent = team_name opp \<rparr>,
                              weekly_pot))))"

definition skins_loop ::
  "real \<Rightarrow> SeasonResults \<Rightarrow> real \<Rightarrow> py_error + (string \<times> SkinsWin list) list \<times> real" where
  "skins_loop min_skins_margin sr weekly_pot =
     foldE (skins_week min_skins_margin weekly_pot sr) ([], weekly_pot)
       (sort (map fst (weekly_scoreboards sr)))"

definition calculate_skins_winners ::
  "real \<Rightarrow> SeasonResults \<Rightarrow> real \<Rightarrow> py_error + (string \<times> SkinsWin list) list" where
  "calculate_skins_winners min_skins_margin sr weekly_pot =
     bindE (skins_loop min_skins_margin sr weekly_pot) (\<lambda>st. Inr (fst st))"

text \<open>
  The specification's words for a week: a matchup qualifies when it is postevent, not
  tied, and won by at least the minimum margin.
\<close>

definition qualifies :: "real \<Rightarrow> Matchup \<Rightarrow> bool" where
  "qualifies min_skins_margin m =
     (status m = ''postevent'' \<and> \<not> is_tied m \<and> margin_of_victory m \<ge> min_skins_margin)"

text \<open>The entry of \<open>potential_winners\<close> that a qualifying matchup contributes.\<close>

definition mk_pw :: "Matchup \<Rightarrow> PotentialWinner" where
  "mk_pw m =
     \<lparr> pw_team = (if points (team1 m) > points (team2 m) then team1 m else team2 m),
       pw_margin = margin_of_victory m, pw_matchup = m \<rparr>"

section \<open>analysis.py: the survivor pool\<close>

record Elimination =
  el_week :: int
  eliminated_team :: string
  eliminated_score :: real
  remaining_teams :: nat

text \<open>
  The result dict; the early return for a season without weeks has no
  \<open>final_active_teams\<close> entry. The active teams are a set, whose order is not fixed.
\<close>

record SurvivorResults =
  sv_winner :: "string option"
  eliminations :: "Elimination list"
  final_active_teams :: "string set option"

definition add_teams :: "string set \<Rightarrow> Matchup \<Rightarrow> string set" where
  "add_teams active_teams m =
     insert (team_name (team2 m)) (insert (team_name (team1 m)) active_teams)"

definition week_score :: "string set \<Rightarrow> (string \<times> real) list \<Rightarrow> Matchup \<Rightarrow> (string \<times> real) list" where
  "week_score active_teams week_scores m =
     (let ws1 = (if team_name (team1 m) \<in> active_teams
                 then dict_set week_scores (team_name (team1 m)) (points (team1 m))
                 else week_scores)
      in if team_name (team2 m) \<in> active_teams
         then dict_set ws1 (team_name (team2 m)) (points (team2 m))
         else ws1)"

definition week_scores :: "string set \<Rightarrow> Matchup list \<Rightarrow> (string \<times> real) list" where
  "week_scores active_teams ms = foldl (week_score active_teams) [] ms"

text \<open>
  The elimination loop on the state \<open>(active_teams, eliminations)\<close>: \<open>break\<close> returns
  the state, \<open>continue\<close> goes on with the remaining weeks. \<open>set.remove\<close> raises
  \<open>KeyError\<close> for a name that is not in the set.
\<close>

fun survivor_loop ::
  "SeasonResults \<Rightarrow> string set \<times> Elimination list \<Rightarrow> int list \<Rightarrow>
   py_error + string set \<times> Elimination list" where
  "survivor_loop sr st [] = Inr st"
| "survivor_loop sr (active_teams, elims) (wk # wks) =
     (if card active_teams \<le> 1 then Inr (active_teams, elims)
      else case map_of (weekly_scoreboards sr) wk of
        None \<Rightarrow> survivor_loop sr (active_teams, elims) wks
      | Some sb \<Rightarrow>
          (case week_scores active_teams (matchups sb) of
             [] \<Rightarrow> survivor_loop sr (active_teams, elims) wks
           | s # ss \<Rightarrow>
               (let eliminated = min_by snd s ss
                in if fst eliminated \<in> active_teams then
                     (let remaining = active_teams - {fst eliminated}
                      in survivor_loop sr
                           (remaining,
                            elims @ [\<lparr> el_week = wk, eliminated_team = fst eliminated,
                                       eliminated_score = snd eliminated,
                                       remaining_teams = card remaining \<rparr>]) wks)
                   else Inl KeyError)))"

text \<open>
  \<open>min(weekly_scoreboards.keys())\<close>; it is only called on a season with a stored week,
  after the early return.
\<close>

definition first_week :: "(int \<times> WeeklyScoreboard) list \<Rightarrow> int" where
  "first_week wsb = (case map fst wsb of [] \<Rightarrow> 0 | k # ks \<Rightarrow> foldl min k ks)"

definition survivor_result :: "string set \<times> Elimination list \<Rightarrow> SurvivorResults" where
  "survivor_result st =
     \<lparr> sv_winner = (if card (fst st) = 1 then Some (the_elem (fst st)) else None),
       eliminations = snd st,
       final_active_teams = Some (fst st) \<rparr>"

definition calculate_survivor_results ::
  "SeasonResults \<Rightarrow> int list option \<Rightarrow> py_error + SurvivorResults" where
  "calculate_survivor_results sr elimination_weeks =
     (let weeks = (case elimination_weeks of
                     None \<Rightarrow> sort (map fst (weekly_scoreboards sr))
                   | Some ws \<Rightarrow> ws)
      in if weekly_scoreboards sr = []
         then Inr \<lparr> sv_winner = None, eliminations = [], final_active_teams = None \<rparr>
         else case map_of (weekly_scoreboards sr) (first_week (weekly_scoreboards sr)) of
                None \<Rightarrow> Inl KeyError
              | Some first_scoreboard \<Rightarrow>
                  bindE (survivor_loop sr (foldl add_teams {} (matchups first_scoreboard), []) weeks)
                    (\<lambda>st. Inr (survivor_result st)))"

text \<open>The names of the teams that play in a list of matchups.\<close>

definition playing :: "Matchup list \<Rightarrow> string set" where
  "playing ms = (\<Union>m \<in> set ms. {team_name (team1 m), team_name (team2 m)})"

text \<open>The pairs of a team's name and its points in a list of matchups.\<close>

definition scored :: "Matchup list \<Rightarrow> (string \<times> real) set" where
  "scored ms =
     (\<Union>m \<in> set ms. {(team_name (team1 m), points (team1 m)),
                      (team_name (team2 m), points (team2 m))})"

section \<open>analysis.py: power rankings\<close>





text \<open>\<open>d[k] = f(d[k])\<close> for a dict in insertion order.\<close>

fun dict_update :: "('k \<times> 'v) list \<Rightarrow> 'k \<Rightarrow> ('v \<Rightarrow> 'v) \<Rightarrow> ('k \<times> 'v) list" where
  "dict_update [] k f = []"
| "dict_update ((k', v) # kvs) k f =
     (if k' = k then (k', f v) # kvs else (k', v) # dict_update kvs k f)"














section \<open>analysis.py: the team records of the season summary\<close>

text \<open>
  The part of \<open>export_season_summary\<close> that fills \<open>team_records\<close>: the set \<open>all_teams\<close>
  of team names, and for each name the record and the total that \<open>SeasonResults\<close>
  returns for it, with \<open>total_points\<close> and \<open>avg_points\<close> added to the record dict.
\<close>

definition all_teams :: "SeasonResults \<Rightarrow> string set" where
  "all_teams sr =
     foldl (\<lambda>teams wsb. foldl add_teams teams (matchups (snd wsb))) {} (weekly_scoreboards sr)"

record SummaryRecord = TeamRecord +
  rec_total_points :: real
  avg_points :: real

definition summary_record :: "SeasonResults \<Rightarrow> string \<Rightarrow> SummaryRecord" where
  "summary_record sr nm =
     (let r = get_team_record sr nm;
          total = get_team_total_points sr nm;
          games = wins r + losses r + ties r
      in \<lparr> wins = wins r, losses = losses r, ties = ties r,
            rec_total_points = py_round 2 total,
            avg_points = (if games > 0 then py_round 2 (total / real games) else 0) \<rparr>)"

definition team_records :: "SeasonResults \<Rightarrow> string \<Rightarrow> SummaryRecord option" where
  "team_records sr nm = (if nm \<in> all_teams sr then Some (summary_record sr nm) else None)"

section \<open>A concrete environment for evaluating the models\<close>

text \<open>
  \<open>int()\<close> and \<open>float()\<close> of a string are given for decimal literals (\<open>12\<close>, \<open>-3\<close>,
  \<open>+7\<close>, \<open>12.5\<close>, with surrounding whitespace); exponents, underscores, \<open>inf\<close> and
  \<open>nan\<close> are not covered, and no evaluation below reads one. \<open>str()\<close> of a float, list
  or dict is left empty, and the validation accepts nothing but a \<open>str\<close> for a \<open>str\<close>
  field.
\<close>

fun digit_val :: "char \<Rightarrow> nat option" where
  "digit_val c = (let n = (of_char c :: nat) in if 48 \<le> n \<and> n \<le> 57 then Some (n - 48) else None)"

fun nat_of_digits :: "nat \<Rightarrow> string \<Rightarrow> nat option" where
  "nat_of_digits acc [] = Some acc"
| "nat_of_digits acc (c # cs) =
     (case digit_val c of None \<Rightarrow> None | Some d \<Rightarrow> nat_of_digits (10 * acc + d) cs)"

fun dec_nat :: "string \<Rightarrow> nat option" where
  "dec_nat [] = None"
| "dec_nat cs = nat_of_digits 0 cs"

definition py_strip :: "string \<Rightarrow> string" where
  "py_strip s = rev (dropWhile py_isspace (rev (dropWhile py_isspace s)))"

fun signed_int :: "string \<Rightarrow> int option" where
  "signed_int (c # cs) =
     (if c = CHR ''-'' then map_option (\<lambda>n. - int n) (dec_nat cs)
      else if c = CHR ''+'' then map_option int (dec_nat cs)
      else map_option int (dec_nat (c # cs)))"
| "signed_int [] = None"

definition dec_int :: "string \<Rightarrow> int option" where
  "dec_int s = signed_int (py_strip s)"

fun dec_unsigned :: "string \<Rightarrow> real option" where
  "dec_unsigned cs =
     (let ip = takeWhile (\<lambda>c. c \<noteq> CHR ''.'') cs; rest = dropWhile (\<lambda>c. c \<noteq> CHR ''.'') cs
      in case rest of
           [] \<Rightarrow> map_option real (dec_nat ip)
         | _ # fp \<Rightarrow>
             (case (dec_nat ip, dec_nat fp) of
                (Some i, Some f) \<Rightarrow> Some (real i + real f / 10 ^ length fp)
              | _ \<Rightarrow> None))"

fun signed_float :: "string \<Rightarrow> real option" where
  "signed_float (c # cs) =
     (if c = CHR ''-'' then map_option uminus (dec_unsigned cs)
      else if c = CHR ''+'' then dec_unsigned cs
      else dec_unsigned (c # cs))"
| "signed_float [] = None"

definition dec_float :: "string \<Rightarrow> real option" where
  "dec_float s = signed_float (py_strip s)"

definition env0 :: py_env where
  "env0 = \<lparr> int_of_str = dec_int, float_of_str = dec_float,
            repr_of = (\<lambda>v. []), str_field = (\<lambda>v. None) \<rparr>"

section \<open>Example payloads\<close>





text \<open>What the parsers make of the example team and player payloads.\<close>

definition example_team :: "string \<Rightarrow> string \<Rightarrow> int \<Rightarrow> real \<Rightarrow> TeamScore" where
  "example_team key nm wk pts =
     \<lparr> team_key = key, team_id = ''7'', team_name = nm, ts_week = wk, points = pts,
       projected_points = None, roster_positions = [], ts_is_tied = False,
       ts_is_playoffs = False \<rparr>"

definition example_player :: "string \<Rightarrow> string \<Rightarrow> string \<Rightarrow> real \<Rightarrow> bool \<Rightarrow> PlayerStats" where
  "example_player key nm slot pts st =
     \<lparr> player_key = key, player_id = ''11'', name = nm, position = ''RB'',
       team = Some ''KC'', ps_points = pts, ps_projected_points = None,
       selected_position = slot, is_starter = st,
       passing_yards = None, passing_tds = None, rushing_yards = None,
       rushing_tds = None, receiving_yards = None, receiving_tds = None,
       receptions = None \<rparr>"

text \<open>
  A finished matchup between two teams, with the fields the parser derives from the two
  point totals, and a season made of scoreboards.
\<close>

definition played :: "int \<Rightarrow> TeamScore \<Rightarrow> TeamScore \<Rightarrow> Matchup" where
  "played wk t1 t2 =
     \<lparr> week = wk, matchup_id = Some ''1'', team1 = t1, team2 = t2,
       winner_team_key =
         (if points t1 = points t2 then None
          else Some (if points t1 > points t2 then team_key t1 else team_key t2)),
       margin_of_victory = \<bar>points t1 - points t2\<bar>,
       is_tied = (points t1 = points t2),
       status = ''postevent'', is_playoffs = False, playoff_tier = None,
       is_consolation = False \<rparr>"

definition scoreboard :: "int \<Rightarrow> Matchup list \<Rightarrow> int \<times> WeeklyScoreboard" where
  "scoreboard wk ms =
     (wk, \<lparr> sb_week = wk, league_key = ''449.l.1'', matchups = ms, is_current_week = False,
            week_start = None, week_end = None \<rparr>)"

definition season_of :: "(int \<times> WeeklyScoreboard) list \<Rightarrow> SeasonResults" where
  "season_of wsb = \<lparr> sr_league_key = ''449.l.1'', season = ''2024'', weekly_scoreboards = wsb \<rparr>"

text \<open>
  The skins example of the specification: the only matchups of weeks 1 to 3 are won by
  25, 5 and 30 points. The weeks are stored out of order, and a fourth week without a
  finished matchup follows.
\<close>

definition skins_season :: SeasonResults where
  "skins_season = season_of
     [scoreboard 3 [played 3 (example_team ''k3'' ''C'' 3 130) (example_team ''k6'' ''Z'' 3 100)],
      scoreboard 1 [played 1 (example_team ''k4'' ''X'' 1 100) (example_team ''k1'' ''A'' 1 125)],
      scoreboard 2 [played 2 (example_team ''k2'' ''B'' 2 105) (example_team ''k5'' ''Y'' 2 100)],
      scoreboard 4 []]"

text \<open>
  The survivor example of the specification, four teams over three weeks, and a season
  whose second week holds a matchup between two teams that did not play in week 1.
\<close>

definition survivor_season :: SeasonResults where
  "survivor_season = season_of
     [scoreboard 1 [played 1 (example_team ''k1'' ''A'' 1 100) (example_team ''k2'' ''B'' 1 90),
                    played 1 (example_team ''k3'' ''C'' 1 80) (example_team ''k4'' ''D'' 1 70)],
      scoreboard 2 [played 2 (example_team ''k1'' ''A'' 2 95) (example_team ''k3'' ''C'' 2 75),
                    played 2 (example_team ''k2'' ''B'' 2 85) (example_team ''k4'' ''D'' 2 60)],
      scoreboard 3 [played 3 (example_team ''k1'' ''A'' 3 90) (example_team ''k2'' ''B'' 3 80)]]"

definition renamed_season :: SeasonResults where
  "renamed_season = season_of
     [scoreboard 1 [played 1 (example_team ''k1'' ''A'' 1 100) (example_team ''k2'' ''B'' 1 90),
                    played 1 (example_team ''k3'' ''C'' 1 80) (example_team ''k4'' ''D'' 1 70)],
      scoreboard 2 [played 2 (example_team ''k5'' ''E'' 2 95) (example_team ''k6'' ''F'' 2 75)]]"

text \<open>
  A season of one week in which the team with key \<open>k1\<close> carries the key of its opponent
  as its name, and loses.
\<close>

definition namesake_season :: SeasonResults where
  "namesake_season = season_of
     [scoreboard 1 [played 1 (example_team ''k1'' ''k2'' 1 90) (example_team ''k2'' ''B'' 1 110)]]"

definition named_season :: SeasonResults where
  "named_season = season_of
     [scoreboard 1 [played 1 (example_team ''k1'' ''A'' 1 90) (example_team ''k2'' ''B'' 1 110)]]"


text \<open>
  Rosters for the position comparison: two running backs on 10 and 5 points against one
  on 8, and two starters in slots outside the standard order.
\<close>

definition roster_of :: "string \<Rightarrow> PlayerStats list \<Rightarrow> TeamRoster" where
  "roster_of nm ps =
     new_TeamRoster ''449.l.1.t.1'' nm 1
       (ps, filter is_starter ps, filter (\<lambda>p. \<not> is_starter p) ps)"

definition two_backs :: TeamRoster where
  "two_backs = roster_of ''A''
     [example_player ''p1'' ''Joe'' ''RB'' 10 True, example_player ''p2'' ''Al'' ''RB'' 5 True]"

definition one_back :: TeamRoster where
  "one_back = roster_of ''B'' [example_player ''p3'' ''Cy'' ''RB'' 8 True]"

definition defenders :: TeamRoster where
  "defenders = roster_of ''A''
     [example_player ''p4'' ''Dan'' ''DB'' 4 True, example_player ''p5'' ''Ed'' ''LB'' 6 True]"

definition nobody :: TeamRoster where
  "nobody = roster_of ''B'' []"

section \<open>Basic facts\<close>

lemma bindE_simps [simp]: "bindE (Inl e) f = Inl e" "bindE (Inr a) f = f a"
  by (simp_all add: bindE_def)



section \<open>Scalar coercion helpers\<close>

lemma safe_int_returns: "\<exists>n. safe_int E v d = Inr n"
  by (cases v) (auto split: option.splits)

lemma safe_float_returns:
  "(\<forall>n. v = JInt n \<longrightarrow> \<bar>n\<bar> < 2 ^ 1024 - 2 ^ 970) \<Longrightarrow> \<exists>x. safe_float E v d = Inr x"
  by (cases v) (auto split: option.splits)

text \<open>
  C8, as stated, fails: the boolean \<open>False\<close> is not replaced by the default. \<open>safe_int\<close>
  and \<open>safe_float\<close> convert it like the number 0 whatever the default is, \<open>safe_str\<close>
  returns the text \<open>False\<close> and hands an all-whitespace string back unchanged; and
  \<open>safe_float\<close> lets the \<open>OverflowError\<close> of an integer beyond the double range escape.
\<close>

theorem safe_coercion_false_counterexample:
  "safe_int env0 (JBool False) 7 = Inr 0 \<and>
   safe_float env0 (JBool False) 7 = Inr 0 \<and>
   safe_str env0 (JBool False) ''d'' = ''False'' \<and>
   safe_str env0 (JStr '' '') ''d'' = '' '' \<and>
   safe_float env0 (JInt (2 ^ 1024)) 0 = Inl OverflowError"
  by simp

text \<open>
  C8, amended. \<open>safe_int\<close> returns for every value and \<open>safe_float\<close> for every value that
  is not an integer beyond the double range; both return the default for \<open>None\<close>, for an
  empty or all-whitespace string, for a string that does not parse and for a list or a
  dict, and 0 for \<open>False\<close>, whatever the default. \<open>safe_str\<close>
  returns the default for \<open>None\<close> only: a string comes back unchanged and \<open>False\<close> as
  the text \<open>False\<close>.
\<close>

theorem safe_coercion_defaults:
  "(\<exists>n. safe_int E v d = Inr n) \<and>
   ((\<forall>n. v = JInt n \<longrightarrow> \<bar>n\<bar> < 2 ^ 1024 - 2 ^ 970) \<longrightarrow> (\<exists>x. safe_float E v r = Inr x)) \<and>
   safe_int E JNull d = Inr d \<and> safe_float E JNull r = Inr r \<and>
   (strip_empty s \<longrightarrow> safe_int E (JStr s) d = Inr d \<and> safe_float E (JStr s) r = Inr r) \<and>
   (int_of_str E s = None \<longrightarrow> safe_int E (JStr s) d = Inr d) \<and>
   (float_of_str E s = None \<longrightarrow> safe_float E (JStr s) r = Inr r) \<and>
   safe_int E (JList xs) d = Inr d \<and> safe_int E (JDict kvs) d = Inr d \<and>
   safe_float E (JList xs) r = Inr r \<and> safe_float E (JDict kvs) r = Inr r \<and>
   safe_int E (JBool False) d = Inr 0 \<and> safe_float E (JBool False) r = Inr 0 \<and>
   safe_str E JNull t = t \<and> safe_str E (JStr s) t = s \<and>
   safe_str E (JBool False) t = ''False''"
  using safe_int_returns [of E v d] safe_float_returns [of v E r] by simp

theorem safe_coercion_defaults_witness:
  "strip_empty '' '' \<and>
   safe_int env0 (JStr '' '') 7 = Inr 7 \<and> safe_float env0 (JStr '' '') 7 = Inr 7 \<and>
   safe_float env0 (JInt 3) 7 = Inr 3 \<and> safe_int env0 (JStr ''12'') 7 = Inr 12 \<and>
   safe_float env0 (JStr '' 12.5'') 7 = Inr (25 / 2) \<and>
   safe_int env0 (JStr ''x'') 7 = Inr 7 \<and> safe_int env0 (JList []) 7 = Inr 7"
  using safe_coercion_defaults
    [where E = env0 and v = "JInt 3" and d = 7 and r = 7 and s = "'' ''" and t = "''d''"
       and xs = "[]" and kvs = "[]"]
  by (simp add: env0_def strip_empty_def py_isspace_def dec_int_def dec_float_def py_strip_def)

section \<open>List normalisation\<close>

lemma extract_JList: "extract_list_items (JList xs) k = map (unwrap_item k) xs"
  by (cases xs) simp_all

lemma extract_wrapped_list:
  "extract_list_items (JList (map (\<lambda>x. JDict [(k, x)]) xs)) k = xs"
  unfolding extract_JList by (induction xs) simp_all

lemma extract_list_of_dicts:
  "list_all (\<lambda>d. is_dict d \<and> has_key d k) ds \<Longrightarrow>
   extract_list_items (JList ds) k = map (\<lambda>d. item_at d k) ds"
  unfolding extract_JList by (induction ds) simp_all

text \<open>
  C5, as stated, fails on the third wire shape: a dict keyed by string indices with a
  sibling \<open>count\<close> is a dict, and a dict that lacks \<open>item_key\<close> is returned whole as the
  only item. Its entries are neither unwrapped nor ordered, and \<open>count\<close> stays inside.
  The list of the same wrapped items gives the two payloads.
\<close>

theorem extract_numeric_dict_counterexample:
  "extract_list_items
     (JDict [(''0'', JDict [(''team'', JStr ''a'')]),
             (''1'', JDict [(''team'', JStr ''b'')]),
             (''count'', JInt 2)]) ''team''
   = [JDict [(''0'', JDict [(''team'', JStr ''a'')]),
             (''1'', JDict [(''team'', JStr ''b'')]),
             (''count'', JInt 2)]] \<and>
   extract_list_items
     (JList [JDict [(''team'', JStr ''a'')], JDict [(''team'', JStr ''b'')]]) ''team''
   = [JStr ''a'', JStr ''b'']"
  by simp

text \<open>
  C5, amended. The helper returns the empty list for every false input (\<open>None\<close>,
  \<open>False\<close>, 0, an empty string, list or dict) and for every value that is neither a
  dict nor a list. A list of mappings that wrap their item
  under \<open>item_key\<close> gives the payloads in list order, and a single such mapping gives the
  same result as the list holding only it. Any other non-empty dict, a dict keyed by
  string indices with a \<open>count\<close> entry among them, is one item: it is returned whole,
  as the only element.
\<close>

theorem extract_list_items_shapes:
  "(\<not> truthy data \<longrightarrow> extract_list_items data k = []) \<and>
   (\<not> is_dict data \<and> (\<forall>ys. data \<noteq> JList ys) \<longrightarrow> extract_list_items data k = []) \<and>
   extract_list_items (JList (map (\<lambda>x. JDict [(k, x)]) xs)) k = xs \<and>
   (list_all (\<lambda>d. is_dict d \<and> has_key d k) ds \<longrightarrow>
      extract_list_items (JList ds) k = map (\<lambda>d. item_at d k) ds) \<and>
   extract_list_items (JDict [(k, x)]) k = [x] \<and>
   (kvs \<noteq> [] \<longrightarrow> extract_list_items (JDict kvs) k = extract_list_items (JList [JDict kvs]) k) \<and>
   (kvs \<noteq> [] \<and> map_of kvs k = None \<longrightarrow> extract_list_items (JDict kvs) k = [JDict kvs])"
proof -
  have other: "\<not> is_dict data \<and> (\<forall>ys. data \<noteq> JList ys) \<longrightarrow> extract_list_items data k = []"
    by (cases data) simp_all
  show ?thesis
    using other extract_wrapped_list [of k xs] extract_list_of_dicts [of k ds]
    by (simp del: extract_list_items.simps) simp
qed

theorem extract_list_items_shapes_witness:
  "\<not> truthy JNull \<and> extract_list_items JNull ''team'' = [] \<and>
   list_all (\<lambda>d. is_dict d \<and> has_key d ''team'')
     [JDict [(''team'', JStr ''a''), (''x'', JNull)], JDict [(''team'', JStr ''b'')]] \<and>
   extract_list_items
     (JList [JDict [(''team'', JStr ''a''), (''x'', JNull)], JDict [(''team'', JStr ''b'')]]) ''team''
   = [JStr ''a'', JStr ''b''] \<and>
   extract_list_items (JDict [(''0'', JStr ''a''), (''count'', JInt 1)]) ''team''
   = [JDict [(''0'', JStr ''a''), (''count'', JInt 1)]]"
  using extract_list_items_shapes
    [of JNull "''team''" "[]"
        "[JDict [(''team'', JStr ''a''), (''x'', JNull)], JDict [(''team'', JStr ''b'')]]"
        JNull "[(''0'', JStr ''a''), (''count'', JInt 1)]"]
  by simp

section \<open>Matchup parsing: margin and tie\<close>





section \<open>Player parsing: the starter flag\<close>







section \<open>Roster parsing: starters, bench and totals\<close>






section \<open>The skins game\<close>

lemma potential_winner_step:
  "potential_winner mm acc m = (if qualifies mm m then acc @ [mk_pw m] else acc)"
  by (auto simp: potential_winner_def qualifies_def get_winning_team_def mk_pw_def)

lemma potential_winners_fold:
  "foldl (potential_winner mm) acc ms = acc @ map mk_pw (filter (qualifies mm) ms)"
  by (induction ms arbitrary: acc) (simp_all add: potential_winner_step)

lemma potential_winners_eq:
  "potential_winners mm sb = map mk_pw (filter (qualifies mm) (matchups sb))"
  by (simp add: potential_winners_def potential_winners_fold)

lemma max_by_mem: "max_by f b xs \<in> set (b # xs)"
  by (induction xs arbitrary: b) (auto split: if_splits)

lemma max_by_ge_best: "f b \<le> f (max_by f b xs)"
proof (induction xs arbitrary: b)
  case Nil show ?case by simp
next
  case (Cons x xs)
  show ?case using Cons.IH [of x] Cons.IH [of b] by auto
qed

lemma max_by_ge: "x \<in> set (b # xs) \<Longrightarrow> f x \<le> f (max_by f b xs)"
proof (induction xs arbitrary: b)
  case Nil then show ?case by simp
next
  case (Cons y ys)
  let ?b = "if f y > f b then y else b"
  have best: "f ?b \<le> f (max_by f ?b ys)" by (rule max_by_ge_best)
  from Cons.prems consider "x = b" | "x = y" | "x \<in> set ys" by auto
  then show ?case
  proof cases
    case 1 with best show ?thesis by (simp split: if_splits)
  next
    case 2 with best show ?thesis by (simp split: if_splits)
  next
    case 3
    then have "x \<in> set (?b # ys)" by simp
    from Cons.IH [OF this] show ?thesis by simp
  qed
qed

lemma opponent_of_winner:
  "\<not> is_tied m \<Longrightarrow> \<exists>w opp. get_winning_team m = Some w \<and> w = pw_team (mk_pw m) \<and> get_team_opponent m (team_key w) = Some opp"
  by (auto simp: get_winning_team_def get_team_opponent_def mk_pw_def)

lemma skins_week_none:
  assumes "map_of (weekly_scoreboards sr) wk = Some sb" "filter (qualifies mm) (matchups sb) = []"
  shows "skins_week mm wp sr (W, pot) wk = Inr (W, pot + wp)"
  using assms by (simp add: skins_week_def potential_winners_eq)

lemma skins_week_some:
  assumes sb: "map_of (weekly_scoreboards sr) wk = Some sb"
    and ne: "filter (qualifies mm) (matchups sb) \<noteq> []"
  shows "\<exists>m winner opp. m \<in> set (filter (qualifies mm) (matchups sb)) \<and>
           (\<forall>m' \<in> set (filter (qualifies mm) (matchups sb)). margin_of_victory m' \<le> margin_of_victory m) \<and>
           get_winning_team m = Some winner \<and> get_team_opponent m (team_key winner) = Some opp \<and>
           skins_week mm wp sr (W, pot) wk =
             Inr (dict_append W (team_name winner)
                   \<lparr> sw_week = wk, margin = margin_of_victory m, pot_amount = pot, opponent = team_name opp \<rparr>, wp)"
proof -
  let ?Q = "filter (qualifies mm) (matchups sb)"
  from ne obtain q qs where Q: "?Q = q # qs" by (cases ?Q) auto
  let ?c = "max_by pw_margin (mk_pw q) (map mk_pw qs)"
  have "?c \<in> set (map mk_pw (q # qs))" using max_by_mem [of pw_margin "mk_pw q" "map mk_pw qs"] by simp
  then obtain m where m: "m \<in> set (q # qs)" "?c = mk_pw m" by auto
  have mx: "\<forall>m' \<in> set (q # qs). margin_of_victory m' \<le> margin_of_victory m"
  proof
    fix m' assume "m' \<in> set (q # qs)"
    then have "mk_pw m' \<in> set (mk_pw q # map mk_pw qs)" by auto
    from max_by_ge [OF this, of pw_margin] have "pw_margin (mk_pw m') \<le> pw_margin (mk_pw m)"
      unfolding m(2) .
    then show "margin_of_victory m' \<le> margin_of_victory m"
      by (simp add: mk_pw_def)
  qed
  from m(1) have "m \<in> set ?Q" unfolding Q .
  then have "qualifies mm m" by simp
  then have "\<not> is_tied m" by (simp add: qualifies_def)
  from opponent_of_winner [OF this] obtain w opp where
    w: "get_winning_team m = Some w" "w = pw_team (mk_pw m)" "get_team_opponent m (team_key w) = Some opp"
    by blast
  have "skins_week mm wp sr (W, pot) wk =
             Inr (dict_append W (team_name w)
                   \<lparr> sw_week = wk, margin = margin_of_victory m, pot_amount = pot, opponent = team_name opp \<rparr>, wp)"
    using sb Q m(2) w by (simp add: skins_week_def potential_winners_eq Let_def mk_pw_def)
  with m(1) mx w Q show ?thesis by metis
qed

lemma skins_week_returns:
  assumes "map_of (weekly_scoreboards sr) wk = Some sb"
  shows "\<exists>st'. skins_week mm wp sr st wk = Inr st'"
proof (cases st)
  case (Pair W pot)
  show ?thesis
  proof (cases "filter (qualifies mm) (matchups sb) = []")
    case True
    from skins_week_none [OF assms True] Pair show ?thesis by blast
  next
    case False
    from skins_week_some [OF assms False, of wp W pot] Pair show ?thesis by blast
  qed
qed

lemma skins_fold_returns:
  "\<forall>k \<in> set ks. map_of (weekly_scoreboards sr) k \<noteq> None \<Longrightarrow>
   \<exists>st'. foldE (skins_week mm wp sr) st ks = Inr st'"
proof (induction ks arbitrary: st)
  case Nil show ?case by simp
next
  case (Cons k ks)
  then obtain sb where "map_of (weekly_scoreboards sr) k = Some sb" by auto
  from skins_week_returns [OF this] obtain st1 where "skins_week mm wp sr st k = Inr st1" by blast
  moreover from Cons.prems have "\<forall>k \<in> set ks. map_of (weekly_scoreboards sr) k \<noteq> None" by simp
  from Cons.IH [OF this, of st1] obtain st2 where "foldE (skins_week mm wp sr) st1 ks = Inr st2" ..
  ultimately show ?case by simp
qed

lemma skins_loop_returns: "\<exists>W pot. skins_loop mm sr wp = Inr (W, pot) \<and> calculate_skins_winners mm sr wp = Inr W"
proof -
  have "\<forall>k \<in> set (sort (map fst (weekly_scoreboards sr))). map_of (weekly_scoreboards sr) k \<noteq> None"
    by (auto simp: map_of_eq_None_iff)
  from skins_fold_returns [OF this] obtain st where "skins_loop mm sr wp = Inr st"
    unfolding skins_loop_def by blast
  then show ?thesis by (cases st) (simp add: calculate_skins_winners_def)
qed

lemmas skins_example_simps =
  skins_season_def season_of_def scoreboard_def played_def example_team_def
  skins_week_def potential_winners_def potential_winner_def get_winning_team_def
  get_team_opponent_def 

text \<open>
  C1. The run over the stored weeks, in ascending order, always returns, and what it
  returns is the winners without the pot that is left. In a stored week without a
  qualifying matchup the pot grows by \<open>weekly_pot\<close> and the winners stay as they are;
  otherwise a qualifying matchup of largest margin wins, its winner's name receives the
  record of the week, the margin, the pot carried so far and the opponent's name, and the
  pot is reset to \<open>weekly_pot\<close>. In the example (pot 10, threshold 20, margins 25, 5 and
  30, then a week without matchups) week 1 pays 10, week 2 raises the pot to 20, week 3
  pays 20, and the 20 left after week 4 appear nowhere in the result.
\<close>

theorem skins_rolling_pot:
  "(\<exists>winners pot. skins_loop mm sr wp = Inr (winners, pot) \<and>
      calculate_skins_winners mm sr wp = Inr winners) \<and>
   (map_of (weekly_scoreboards sr) wk = Some sb \<longrightarrow>
      (filter (qualifies mm) (matchups sb) = [] \<longrightarrow>
         skins_week mm wp sr (W, pot) wk = Inr (W, pot + wp)) \<and>
      (filter (qualifies mm) (matchups sb) \<noteq> [] \<longrightarrow>
         (\<exists>m winner opp.
            m \<in> set (filter (qualifies mm) (matchups sb)) \<and>
            (\<forall>m' \<in> set (filter (qualifies mm) (matchups sb)).
               margin_of_victory m' \<le> margin_of_victory m) \<and>
            get_winning_team m = Some winner \<and>
            get_team_opponent m (team_key winner) = Some opp \<and>
            skins_week mm wp sr (W, pot) wk =
              Inr (dict_append W (team_name winner)
                     \<lparr> sw_week = wk, margin = margin_of_victory m, pot_amount = pot,
                       opponent = team_name opp \<rparr>, wp)))) \<and>
   foldE (skins_week 20 10 skins_season) ([], 10) [1] =
     Inr ([(''A'', [\<lparr> sw_week = 1, margin = 25, pot_amount = 10, opponent = ''X'' \<rparr>])], 10) \<and>
   foldE (skins_week 20 10 skins_season) ([], 10) [1, 2] =
     Inr ([(''A'', [\<lparr> sw_week = 1, margin = 25, pot_amount = 10, opponent = ''X'' \<rparr>])], 20) \<and>
   foldE (skins_week 20 10 skins_season) ([], 10) [1, 2, 3] =
     Inr ([(''A'', [\<lparr> sw_week = 1, margin = 25, pot_amount = 10, opponent = ''X'' \<rparr>]),
          (''C'', [\<lparr> sw_week = 3, margin = 30, pot_amount = 20, opponent = ''Z'' \<rparr>])], 10) \<and>
   skins_loop 20 skins_season 10 =
     Inr ([(''A'', [\<lparr> sw_week = 1, margin = 25, pot_amount = 10, opponent = ''X'' \<rparr>]),
          (''C'', [\<lparr> sw_week = 3, margin = 30, pot_amount = 20, opponent = ''Z'' \<rparr>])], 20) \<and>
   calculate_skins_winners 20 skins_season 10 =
     Inr [(''A'', [\<lparr> sw_week = 1, margin = 25, pot_amount = 10, opponent = ''X'' \<rparr>]),
          (''C'', [\<lparr> sw_week = 3, margin = 30, pot_amount = 20, opponent = ''Z'' \<rparr>])]"
proof -
  have run: "\<exists>winners pot. skins_loop mm sr wp = Inr (winners, pot) \<and>
      calculate_skins_winners mm sr wp = Inr winners"
    by (rule skins_loop_returns)
  have week: "map_of (weekly_scoreboards sr) wk = Some sb \<longrightarrow>
      (filter (qualifies mm) (matchups sb) = [] \<longrightarrow>
         skins_week mm wp sr (W, pot) wk = Inr (W, pot + wp)) \<and>
      (filter (qualifies mm) (matchups sb) \<noteq> [] \<longrightarrow>
         (\<exists>m winner opp.
            m \<in> set (filter (qualifies mm) (matchups sb)) \<and>
            (\<forall>m' \<in> set (filter (qualifies mm) (matchups sb)).
               margin_of_victory m' \<le> margin_of_victory m) \<and>
            get_winning_team m = Some winner \<and>
            get_team_opponent m (team_key winner) = Some opp \<and>
            skins_week mm wp sr (W, pot) wk =
              Inr (dict_append W (team_name winner)
                     \<lparr> sw_week = wk, margin = margin_of_victory m, pot_amount = pot,
                       opponent = team_name opp \<rparr>, wp)))"
    using skins_week_none [of sr wk sb mm wp W pot] skins_week_some [of sr wk sb mm wp W pot]
    by blast
  have ex1: "foldE (skins_week 20 10 skins_season) ([], 10) [1] =
     Inr ([(''A'', [\<lparr> sw_week = 1, margin = 25, pot_amount = 10, opponent = ''X'' \<rparr>])], 10)"
    by (simp add: skins_example_simps)
  have ex2: "foldE (skins_week 20 10 skins_season) ([], 10) [1, 2] =
     Inr ([(''A'', [\<lparr> sw_week = 1, margin = 25, pot_amount = 10, opponent = ''X'' \<rparr>])], 20)"
    by (simp add: skins_example_simps)
  have ex3: "foldE (skins_week 20 10 skins_season) ([], 10) [1, 2, 3] =
     Inr ([(''A'', [\<lparr> sw_week = 1, margin = 25, pot_amount = 10, opponent = ''X'' \<rparr>]),
          (''C'', [\<lparr> sw_week = 3, margin = 30, pot_amount = 20, opponent = ''Z'' \<rparr>])], 10)"
    by (simp add: skins_example_simps)
  have ex4: "skins_loop 20 skins_season 10 =
     Inr ([(''A'', [\<lparr> sw_week = 1, margin = 25, pot_amount = 10, opponent = ''X'' \<rparr>]),
          (''C'', [\<lparr> sw_week = 3, margin = 30, pot_amount = 20, opponent = ''Z'' \<rparr>])], 20)"
    by (simp add: skins_loop_def skins_example_simps)
  have ex5: "calculate_skins_winners 20 skins_season 10 =
     Inr [(''A'', [\<lparr> sw_week = 1, margin = 25, pot_amount = 10, opponent = ''X'' \<rparr>]),
          (''C'', [\<lparr> sw_week = 3, margin = 30, pot_amount = 20, opponent = ''Z'' \<rparr>])]"
    by (simp add: calculate_skins_winners_def ex4)
  from run week ex1 ex2 ex3 ex4 ex5 show ?thesis by blast
qed

theorem skins_rolling_pot_witness:
  "map_of (weekly_scoreboards skins_season) 2
     = Some (snd (scoreboard 2
         [played 2 (example_team ''k2'' ''B'' 2 105) (example_team ''k5'' ''Y'' 2 100)])) \<and>
   filter (qualifies 20)
     [played 2 (example_team ''k2'' ''B'' 2 105) (example_team ''k5'' ''Y'' 2 100)] = [] \<and>
   skins_week 20 10 skins_season ([], 10) 2 = Inr ([], 20) \<and>
   map_of (weekly_scoreboards skins_season) 3
     = Some (snd (scoreboard 3
         [played 3 (example_team ''k3'' ''C'' 3 130) (example_team ''k6'' ''Z'' 3 100)])) \<and>
   filter (qualifies 20)
     [played 3 (example_team ''k3'' ''C'' 3 130) (example_team ''k6'' ''Z'' 3 100)]
     = [played 3 (example_team ''k3'' ''C'' 3 130) (example_team ''k6'' ''Z'' 3 100)] \<and>
   skins_week 20 10 skins_season ([], 20) 3
     = Inr ([(''C'', [\<lparr> sw_week = 3, margin = 30, pot_amount = 20, opponent = ''Z'' \<rparr>])], 10)"
  using
    skins_rolling_pot [of 20 skins_season 10 2
      "snd (scoreboard 2 [played 2 (example_team ''k2'' ''B'' 2 105) (example_team ''k5'' ''Y'' 2 100)])"
      "[]" 10]
    skins_rolling_pot [of 20 skins_season 10 3
      "snd (scoreboard 3 [played 3 (example_team ''k3'' ''C'' 3 130) (example_team ''k6'' ''Z'' 3 100)])"
      "[]" 20]
  by (simp add: skins_example_simps qualifies_def)

section \<open>The survivor pool\<close>

lemma min_by_mem: "min_by f b xs \<in> set (b # xs)"
  by (induction xs arbitrary: b) (auto split: if_splits)

lemma min_by_le_best: "f (min_by f b xs) \<le> f b"
proof (induction xs arbitrary: b)
  case Nil show ?case by simp
next
  case (Cons x xs)
  show ?case using Cons.IH [of x] Cons.IH [of b] by auto
qed

lemma min_by_le: "x \<in> set (b # xs) \<Longrightarrow> f (min_by f b xs) \<le> f x"
proof (induction xs arbitrary: b)
  case Nil then show ?case by simp
next
  case (Cons y ys)
  let ?b = "if f y < f b then y else b"
  have best: "f (min_by f ?b ys) \<le> f ?b" by (rule min_by_le_best)
  from Cons.prems consider "x = b" | "x = y" | "x \<in> set ys" by auto
  then show ?case
  proof cases
    case 1 with best show ?thesis by (simp split: if_splits)
  next
    case 2 with best show ?thesis by (simp split: if_splits)
  next
    case 3
    then have "x \<in> set (?b # ys)" by simp
    from Cons.IH [OF this] show ?thesis by simp
  qed
qed

lemma dict_set_keys: "fst ` set (dict_set d k v) = insert k (fst ` set d)"
  by (induction d k v rule: dict_set.induct) auto

lemma dict_set_entries: "set (dict_set d k v) \<subseteq> insert (k, v) (set d)"
  by (induction d k v rule: dict_set.induct) auto

lemma week_score_keys:
  "fst ` set (week_score A ws m) = fst ` set ws \<union> (A \<inter> {team_name (team1 m), team_name (team2 m)})"
  by (auto simp: week_score_def Let_def dict_set_keys)

lemma week_scores_fold_keys:
  "fst ` set (foldl (week_score A) ws ms) = fst ` set ws \<union> (A \<inter> playing ms)"
proof (induction ms arbitrary: ws)
  case Nil show ?case by (simp add: playing_def)
next
  case (Cons m ms)
  show ?case unfolding foldl_Cons Cons.IH week_score_keys by (auto simp: playing_def)
qed

lemma week_scores_keys: "fst ` set (week_scores A ms) = A \<inter> playing ms"
  by (simp add: week_scores_def week_scores_fold_keys)

lemma dict_set_entry: "x \<in> set (dict_set d k v) \<Longrightarrow> x = (k, v) \<or> x \<in> set d"
  using dict_set_entries [of d k v] by blast

lemma week_score_entries:
  "set (week_score A ws m) \<subseteq> set ws \<union> scored [m]"
proof
  fix x assume x: "x \<in> set (week_score A ws m)"
  show "x \<in> set ws \<union> scored [m]"
  proof (cases "team_name (team1 m) \<in> A")
    case True
    show ?thesis
    proof (cases "team_name (team2 m) \<in> A")
      case True
      with \<open>team_name (team1 m) \<in> A\<close> x
      have "x \<in> set (dict_set (dict_set ws (team_name (team1 m)) (points (team1 m)))
              (team_name (team2 m)) (points (team2 m)))"
        by (simp add: week_score_def)
      then show ?thesis by (auto simp: scored_def dest!: dict_set_entry)
    next
      case False
      with \<open>team_name (team1 m) \<in> A\<close> x
      have "x \<in> set (dict_set ws (team_name (team1 m)) (points (team1 m)))"
        by (simp add: week_score_def)
      then show ?thesis by (auto simp: scored_def dest!: dict_set_entry)
    qed
  next
    case False
    show ?thesis
    proof (cases "team_name (team2 m) \<in> A")
      case True
      with \<open>team_name (team1 m) \<notin> A\<close> x
      have "x \<in> set (dict_set ws (team_name (team2 m)) (points (team2 m)))"
        by (simp add: week_score_def)
      then show ?thesis by (auto simp: scored_def dest!: dict_set_entry)
    next
      case False
      with \<open>team_name (team1 m) \<notin> A\<close> x show ?thesis by (simp add: week_score_def)
    qed
  qed
qed

lemma week_scores_fold_entries:
  "set (foldl (week_score A) ws ms) \<subseteq> set ws \<union> scored ms"
proof (induction ms arbitrary: ws)
  case Nil show ?case by simp
next
  case (Cons m ms)
  have "set (foldl (week_score A) (week_score A ws m) ms) \<subseteq> set (week_score A ws m) \<union> scored ms"
    by (rule Cons.IH)
  also have "\<dots> \<subseteq> set ws \<union> scored [m] \<union> scored ms"
    using week_score_entries [of A ws m] by auto
  also have "\<dots> = set ws \<union> scored (m # ms)" by (auto simp: scored_def)
  finally show ?case by simp
qed

lemma week_scores_entries: "set (week_scores A ms) \<subseteq> scored ms"
  using week_scores_fold_entries [of A "[]" ms] by (simp add: week_scores_def)

lemma initial_teams: "foldl add_teams A ms = A \<union> playing ms"
  by (induction ms arbitrary: A) (auto simp: add_teams_def playing_def)

lemma first_week_Min: "wsb \<noteq> [] \<Longrightarrow> first_week wsb = Min (fst ` set wsb)"
proof -
  have "(\<lambda>x s. min s x) = (min :: int \<Rightarrow> int \<Rightarrow> int)"
    by (intro ext) (rule min.commute)
  then have fold_min: "foldl min k ks = Min (set (k # ks))" for k :: int and ks
    by (simp only: foldl_conv_fold Min.set_eq_fold)
  assume "wsb \<noteq> []"
  then obtain k ks where ks: "map fst wsb = k # ks" by (cases wsb) auto
  have "fst ` set wsb = set (map fst wsb)" by simp
  also have "\<dots> = set (k # ks)" by (simp only: ks)
  finally have "Min (fst ` set wsb) = Min (set (k # ks))" by (rule arg_cong)
  then show ?thesis by (simp only: first_week_def ks fold_min list.case)
qed

lemma survivor_stop: "card A \<le> 1 \<Longrightarrow> survivor_loop sr (A, els) (wk # wks) = Inr (A, els)"
  by simp

lemma survivor_skip_unstored:
  "1 < card A \<Longrightarrow> map_of (weekly_scoreboards sr) wk = None \<Longrightarrow>
   survivor_loop sr (A, els) (wk # wks) = survivor_loop sr (A, els) wks"
  by simp

lemma survivor_skip_absent:
  assumes "1 < card A" "map_of (weekly_scoreboards sr) wk = Some sb" "A \<inter> playing (matchups sb) = {}"
  shows "survivor_loop sr (A, els) (wk # wks) = survivor_loop sr (A, els) wks"
proof -
  from week_scores_keys [of A "matchups sb"] assms(3) have "week_scores A (matchups sb) = []" by simp
  with assms show ?thesis by simp
qed

lemma survivor_eliminate:
  assumes "1 < card A" "map_of (weekly_scoreboards sr) wk = Some sb" "A \<inter> playing (matchups sb) \<noteq> {}"
  shows "\<exists>n s. n \<in> A \<and> (n, s) \<in> set (week_scores A (matchups sb)) \<and> (n, s) \<in> scored (matchups sb) \<and>
           (\<forall>e \<in> set (week_scores A (matchups sb)). s \<le> snd e) \<and>
           survivor_loop sr (A, els) (wk # wks) =
             survivor_loop sr (A - {n}, els @ [\<lparr> el_week = wk, eliminated_team = n, eliminated_score = s,
                   remaining_teams = card (A - {n}) \<rparr>]) wks"
proof -
  let ?ws = "week_scores A (matchups sb)"
  from week_scores_keys [of A "matchups sb"] assms(3) obtain x xs where ws: "?ws = x # xs"
    by (cases ?ws) auto
  let ?e = "min_by snd x xs"
  have mem: "?e \<in> set ?ws" using min_by_mem [of snd x xs] ws by simp
  then have "fst ?e \<in> fst ` set ?ws" by (rule imageI)
  then have inA: "fst ?e \<in> A" unfolding week_scores_keys by simp
  have le: "\<forall>e \<in> set ?ws. snd ?e \<le> snd e" using min_by_le [of _ x xs snd] ws by simp
  from mem week_scores_entries have sc: "?e \<in> scored (matchups sb)" by blast
  have "survivor_loop sr (A, els) (wk # wks) =
             survivor_loop sr (A - {fst ?e}, els @ [\<lparr> el_week = wk, eliminated_team = fst ?e, eliminated_score = snd ?e,
                   remaining_teams = card (A - {fst ?e}) \<rparr>]) wks"
    using assms(1,2) ws inA by (simp add: Let_def)
  with inA mem le sc show ?thesis by (metis prod.collapse)
qed

lemma survivor_loop_count:
  "finite A \<Longrightarrow> \<exists>A' els'. survivor_loop sr (A, els) wks = Inr (A', els') \<and> A' \<subseteq> A \<and>
     length els' + card A' = length els + card A"
proof (induction wks arbitrary: A els)
  case Nil show ?case by simp
next
  case (Cons wk wks)
  show ?case
  proof (cases "card A \<le> 1")
    case True then show ?thesis by simp
  next
    case False
    then have c: "1 < card A" by simp
    show ?thesis
    proof (cases "map_of (weekly_scoreboards sr) wk")
      case None
      with c Cons.IH [OF Cons.prems, of els] show ?thesis by simp
    next
      case (Some sb)
      show ?thesis
      proof (cases "A \<inter> playing (matchups sb) = {}")
        case True
        from survivor_skip_absent [OF c Some True] Cons.IH [OF Cons.prems, of els] show ?thesis by simp
      next
        case False
        from survivor_eliminate [OF c Some False, of els wks] obtain n s where
          n: "n \<in> A" and
          step: "survivor_loop sr (A, els) (wk # wks) =
             survivor_loop sr (A - {n}, els @ [\<lparr> el_week = wk, eliminated_team = n, eliminated_score = s,
                   remaining_teams = card (A - {n}) \<rparr>]) wks" by blast
        from Cons.prems have fin: "finite (A - {n})" by simp
        from Cons.IH [OF fin, of "els @ [\<lparr> el_week = wk, eliminated_team = n, eliminated_score = s,
                   remaining_teams = card (A - {n}) \<rparr>]"] obtain A' els' where
          r: "survivor_loop sr (A - {n}, els @ [\<lparr> el_week = wk, eliminated_team = n, eliminated_score = s,
                   remaining_teams = card (A - {n}) \<rparr>]) wks = Inr (A', els')"
             "A' \<subseteq> A - {n}" "length els' + card A' = length els + 1 + card (A - {n})" by auto
        from n Cons.prems c have "card (A - {n}) + 1 = card A" by (simp add: card_Diff_singleton)
        with r step show ?thesis by auto
      qed
    qed
  qed
qed

lemma finite_playing: "finite (playing ms)"
  by (simp add: playing_def)

lemma first_week_stored:
  assumes "wsb \<noteq> []"
  shows "\<exists>sb. map_of wsb (first_week wsb) = Some sb"
proof -
  from assms have "fst ` set wsb \<noteq> {}" by simp
  then have "Min (fst ` set wsb) \<in> fst ` set wsb" by (intro Min_in) simp_all
  then have "map_of wsb (first_week wsb) \<noteq> None"
    by (simp only: first_week_Min [OF assms] map_of_eq_None_iff not_not)
  then show ?thesis by blast
qed

lemma survivor_run:
  assumes "weekly_scoreboards sr \<noteq> []"
  shows "\<exists>first_sb remaining els.
           map_of (weekly_scoreboards sr) (Min (fst ` set (weekly_scoreboards sr))) = Some first_sb \<and>
           survivor_loop sr (playing (matchups first_sb), [])
             (case ew of None \<Rightarrow> sort (map fst (weekly_scoreboards sr)) | Some ws \<Rightarrow> ws)
             = Inr (remaining, els) \<and>
           calculate_survivor_results sr ew =
             Inr \<lparr> sv_winner = (if card remaining = 1 then Some (the_elem remaining) else None),
                   eliminations = els, final_active_teams = Some remaining \<rparr> \<and>
           remaining \<subseteq> playing (matchups first_sb) \<and>
           length els + card remaining = card (playing (matchups first_sb))"
proof -
  let ?wsb = "weekly_scoreboards sr"
  let ?weeks = "case ew of None \<Rightarrow> sort (map fst ?wsb) | Some ws \<Rightarrow> ws"
  from first_week_stored [OF assms] obtain sb where sb: "map_of ?wsb (first_week ?wsb) = Some sb" ..
  then have sb': "map_of ?wsb (Min (fst ` set ?wsb)) = Some sb"
    by (simp only: first_week_Min [OF assms])
  have init: "foldl add_teams {} (matchups sb) = playing (matchups sb)"
    by (simp add: initial_teams)
  from survivor_loop_count [OF finite_playing, of sr "matchups sb" "[]" ?weeks]
  obtain A' els where run: "survivor_loop sr (playing (matchups sb), []) ?weeks = Inr (A', els)"
    and sub: "A' \<subseteq> playing (matchups sb)"
    and cnt: "length els + card A' = card (playing (matchups sb))"
    by auto
  have "calculate_survivor_results sr ew =
          Inr \<lparr> sv_winner = (if card A' = 1 then Some (the_elem A') else None),
                eliminations = els, final_active_teams = Some A' \<rparr>"
    using assms sb run by (simp add: calculate_survivor_results_def init survivor_result_def)
  with sb' run sub cnt show ?thesis by blast
qed

lemmas survivor_example_simps =
  survivor_season_def renamed_season_def season_of_def scoreboard_def played_def
  example_team_def calculate_survivor_results_def first_week_def add_teams_def
  week_scores_def week_score_def survivor_result_def

text \<open>
  C2, as stated, fails: a stored week in which none of the active teams plays eliminates
  nobody. In \<open>renamed_season\<close> week 2 is stored and three teams are active after week 1,
  yet the only elimination is that of week 1.
\<close>

theorem survivor_absent_week_counterexample:
  "calculate_survivor_results renamed_season None =
     Inr \<lparr> sv_winner = None,
           eliminations = [\<lparr> el_week = 1, eliminated_team = ''D'', eliminated_score = 70,
                             remaining_teams = 3 \<rparr>],
           final_active_teams = Some {''A'', ''B'', ''C''} \<rparr> \<and>
   map_of (weekly_scoreboards renamed_season) 2 =
     Some (snd (scoreboard 2
       [played 2 (example_team ''k5'' ''E'' 2 95) (example_team ''k6'' ''F'' 2 75)]))"
  by (simp add: survivor_example_simps) auto

text \<open>
  C2, amended. For a season with at least one stored week, the active teams start as
  exactly the teams of the matchups of the earliest stored week, the call returns, the
  winner is the sole remaining team when exactly one remains and null otherwise, and the
  number of eliminations is the number of initial teams less the number of remaining
  ones, so one less than the initial teams when there is a winner. A round of the loop
  stops when at most one team is active; it eliminates nobody when the week is not stored
  or when no active team plays in it; otherwise it removes an active team whose score in
  that week is smallest among the active teams that play, and appends the week, the team,
  that score and the number of teams left.
\<close>

theorem survivor_elimination:
  "(weekly_scoreboards sr \<noteq> [] \<longrightarrow>
      (\<exists>first_sb remaining els.
         map_of (weekly_scoreboards sr) (Min (fst ` set (weekly_scoreboards sr))) = Some first_sb \<and>
         survivor_loop sr (playing (matchups first_sb), [])
           (case ew of None \<Rightarrow> sort (map fst (weekly_scoreboards sr)) | Some ws \<Rightarrow> ws)
           = Inr (remaining, els) \<and>
         calculate_survivor_results sr ew =
           Inr \<lparr> sv_winner = (if card remaining = 1 then Some (the_elem remaining) else None),
                 eliminations = els, final_active_teams = Some remaining \<rparr> \<and>
         (\<forall>w. remaining = {w} \<longrightarrow> (if card remaining = 1 then Some (the_elem remaining) else None) = Some w) \<and>
         length els + card remaining = card (playing (matchups first_sb)) \<and>
         (card remaining = 1 \<longrightarrow> length els = card (playing (matchups first_sb)) - 1))) \<and>
   (card A \<le> 1 \<longrightarrow> survivor_loop sr (A, elims) (wk # wks) = Inr (A, elims)) \<and>
   (1 < card A \<and> map_of (weekly_scoreboards sr) wk = None \<longrightarrow>
      survivor_loop sr (A, elims) (wk # wks) = survivor_loop sr (A, elims) wks) \<and>
   (1 < card A \<and> map_of (weekly_scoreboards sr) wk = Some sb \<and> A \<inter> playing (matchups sb) = {} \<longrightarrow>
      survivor_loop sr (A, elims) (wk # wks) = survivor_loop sr (A, elims) wks) \<and>
   (1 < card A \<and> map_of (weekly_scoreboards sr) wk = Some sb \<and> A \<inter> playing (matchups sb) \<noteq> {} \<longrightarrow>
      (\<exists>n s. n \<in> A \<and> (n, s) \<in> set (week_scores A (matchups sb)) \<and>
         (n, s) \<in> scored (matchups sb) \<and>
         (\<forall>e \<in> set (week_scores A (matchups sb)). s \<le> snd e) \<and>
         fst ` set (week_scores A (matchups sb)) = A \<inter> playing (matchups sb) \<and>
         survivor_loop sr (A, elims) (wk # wks) =
           survivor_loop sr
             (A - {n},
              elims @ [\<lparr> el_week = wk, eliminated_team = n, eliminated_score = s,
                         remaining_teams = card (A - {n}) \<rparr>]) wks))"
proof -
  have run: "weekly_scoreboards sr \<noteq> [] \<longrightarrow>
      (\<exists>first_sb remaining els.
         map_of (weekly_scoreboards sr) (Min (fst ` set (weekly_scoreboards sr))) = Some first_sb \<and>
         survivor_loop sr (playing (matchups first_sb), [])
           (case ew of None \<Rightarrow> sort (map fst (weekly_scoreboards sr)) | Some ws \<Rightarrow> ws)
           = Inr (remaining, els) \<and>
         calculate_survivor_results sr ew =
           Inr \<lparr> sv_winner = (if card remaining = 1 then Some (the_elem remaining) else None),
                 eliminations = els, final_active_teams = Some remaining \<rparr> \<and>
         (\<forall>w. remaining = {w} \<longrightarrow> (if card remaining = 1 then Some (the_elem remaining) else None) = Some w) \<and>
         length els + card remaining = card (playing (matchups first_sb)) \<and>
         (card remaining = 1 \<longrightarrow> length els = card (playing (matchups first_sb)) - 1))"
  proof
    assume "weekly_scoreboards sr \<noteq> []"
    from survivor_run [OF this, of ew] obtain first_sb remaining els where
      r: "map_of (weekly_scoreboards sr) (Min (fst ` set (weekly_scoreboards sr))) = Some first_sb"
         "survivor_loop sr (playing (matchups first_sb), [])
           (case ew of None \<Rightarrow> sort (map fst (weekly_scoreboards sr)) | Some ws \<Rightarrow> ws)
           = Inr (remaining, els)"
         "calculate_survivor_results sr ew =
           Inr \<lparr> sv_winner = (if card remaining = 1 then Some (the_elem remaining) else None),
                 eliminations = els, final_active_teams = Some remaining \<rparr>"
         "length els + card remaining = card (playing (matchups first_sb))"
      by blast
    have w: "\<forall>w. remaining = {w} \<longrightarrow>
               (if card remaining = 1 then Some (the_elem remaining) else None) = Some w"
      by simp
    from r(4) have c: "card remaining = 1 \<longrightarrow> length els = card (playing (matchups first_sb)) - 1"
      by arith
    from r w c show "\<exists>first_sb remaining els.
         map_of (weekly_scoreboards sr) (Min (fst ` set (weekly_scoreboards sr))) = Some first_sb \<and>
         survivor_loop sr (playing (matchups first_sb), [])
           (case ew of None \<Rightarrow> sort (map fst (weekly_scoreboards sr)) | Some ws \<Rightarrow> ws)
           = Inr (remaining, els) \<and>
         calculate_survivor_results sr ew =
           Inr \<lparr> sv_winner = (if card remaining = 1 then Some (the_elem remaining) else None),
                 eliminations = els, final_active_teams = Some remaining \<rparr> \<and>
         (\<forall>w. remaining = {w} \<longrightarrow> (if card remaining = 1 then Some (the_elem remaining) else None) = Some w) \<and>
         length els + card remaining = card (playing (matchups first_sb)) \<and>
         (card remaining = 1 \<longrightarrow> length els = card (playing (matchups first_sb)) - 1)"
      by blast
  qed
  have stop: "card A \<le> 1 \<longrightarrow> survivor_loop sr (A, elims) (wk # wks) = Inr (A, elims)"
    by simp
  have unstored: "1 < card A \<and> map_of (weekly_scoreboards sr) wk = None \<longrightarrow>
      survivor_loop sr (A, elims) (wk # wks) = survivor_loop sr (A, elims) wks"
    by simp
  have absent: "1 < card A \<and> map_of (weekly_scoreboards sr) wk = Some sb \<and>
      A \<inter> playing (matchups sb) = {} \<longrightarrow>
      survivor_loop sr (A, elims) (wk # wks) = survivor_loop sr (A, elims) wks"
    using survivor_skip_absent [of A sr wk sb elims wks] by blast
  have elim: "1 < card A \<and> map_of (weekly_scoreboards sr) wk = Some sb \<and>
      A \<inter> playing (matchups sb) \<noteq> {} \<longrightarrow>
      (\<exists>n s. n \<in> A \<and> (n, s) \<in> set (week_scores A (matchups sb)) \<and>
         (n, s) \<in> scored (matchups sb) \<and>
         (\<forall>e \<in> set (week_scores A (matchups sb)). s \<le> snd e) \<and>
         fst ` set (week_scores A (matchups sb)) = A \<inter> playing (matchups sb) \<and>
         survivor_loop sr (A, elims) (wk # wks) =
           survivor_loop sr
             (A - {n},
              elims @ [\<lparr> el_week = wk, eliminated_team = n, eliminated_score = s,
                         remaining_teams = card (A - {n}) \<rparr>]) wks)"
    using survivor_eliminate [of A sr wk sb elims wks] week_scores_keys [of A "matchups sb"]
    by blast
  from run stop unstored absent elim show ?thesis by blast
qed

theorem survivor_elimination_witness:
  "weekly_scoreboards survivor_season \<noteq> [] \<and>
   calculate_survivor_results survivor_season None =
     Inr \<lparr> sv_winner = Some ''A'',
           eliminations =
             [\<lparr> el_week = 1, eliminated_team = ''D'', eliminated_score = 70, remaining_teams = 3 \<rparr>,
              \<lparr> el_week = 2, eliminated_team = ''C'', eliminated_score = 75, remaining_teams = 2 \<rparr>,
              \<lparr> el_week = 3, eliminated_team = ''B'', eliminated_score = 80, remaining_teams = 1 \<rparr>],
           final_active_teams = Some {''A''} \<rparr> \<and>
   card {''A'', ''B'', ''C'', ''D''} = 4 \<and>
   survivor_loop survivor_season ({''A''}, []) [3] = Inr ({''A''}, []) \<and>
   map_of (weekly_scoreboards survivor_season) 7 = None \<and>
   survivor_loop survivor_season ({''A'', ''B''}, []) [7] = Inr ({''A'', ''B''}, [])"
  using
    survivor_elimination [of survivor_season None "{''A''}" "[]" 3 "[]"
      "snd (scoreboard 3
         [played 3 (example_team ''k1'' ''A'' 3 90) (example_team ''k2'' ''B'' 3 80)])"]
    survivor_elimination [of survivor_season None "{''A'', ''B''}" "[]" 7 "[]"
      "snd (scoreboard 7 [])"]
  by (simp add: survivor_example_simps)

section \<open>Team records of the season summary\<close>

lemmas export_example_simps =
  namesake_season_def named_season_def season_of_def scoreboard_def played_def example_team_def
  team_records_def all_teams_def add_teams_def summary_record_def get_team_record_def record_week_def
  get_team_total_points_def total_week_def get_team_score_def py_round_def

lemma py_round_0 [simp]: "py_round n 0 = 0"
  by (simp add: py_round_def)

lemma no_matchup: "\<forall>m \<in> set ms. team_key (team1 m) \<noteq> k \<and> team_key (team2 m) \<noteq> k \<Longrightarrow> get_matchup_by_team ms k = None"
  by (induction ms) auto

lemma record_unchanged:
  "\<forall>wsb \<in> set wsbs. \<forall>m \<in> set (matchups (snd wsb)). team_key (team1 m) \<noteq> k \<and> team_key (team2 m) \<noteq> k \<Longrightarrow>
   foldl (record_week k) r wsbs = r"
  by (induction wsbs arbitrary: r) (simp_all add: record_week_def no_matchup)

lemma total_unchanged:
  "\<forall>wsb \<in> set wsbs. \<forall>m \<in> set (matchups (snd wsb)). team_key (team1 m) \<noteq> k \<and> team_key (team2 m) \<noteq> k \<Longrightarrow>
   foldl (total_week k) t wsbs = t"
  by (induction wsbs arbitrary: t) (simp_all add: total_week_def get_team_score_def no_matchup)

lemma all_teams_fold: "foldl (\<lambda>teams wsb. foldl add_teams teams (matchups (snd wsb))) A wsbs = A \<union> (\<Union>wsb \<in> set wsbs. playing (matchups (snd wsb)))"
  by (induction wsbs arbitrary: A) (auto simp: initial_teams)

lemma all_teams_eq: "all_teams sr = (\<Union>wsb \<in> set (weekly_scoreboards sr). playing (matchups (snd wsb)))"
  by (simp add: all_teams_def all_teams_fold)

text \<open>
  C10, as stated, fails: the lookup by name also finds a team whose key is that name. In
  \<open>namesake_season\<close> the team with key \<open>k1\<close> is named \<open>k2\<close>, so its name differs from
  its key, and it lost its only game with 90 points; the record exported under its name
  is the win and the 110 points of the team whose key is \<open>k2\<close>.
\<close>

theorem export_namesake_counterexample:
  "team_records namesake_season ''k2'' =
     Some \<lparr> wins = 1, losses = 0, ties = 0, rec_total_points = 110, avg_points = 110 \<rparr>"
  by (simp add: export_example_simps)

text \<open>
  C10, amended. The names \<open>export_season_summary\<close> iterates over are the team names of
  all stored matchups, and it looks each name up with \<open>get_team_record\<close> and
  \<open>get_team_total_points\<close>, which match the \<open>team_key\<close> field. For every season and
  every team name that is the \<open>team_key\<close> of no team in any stored matchup, the exported
  record is wins=0, losses=0, ties=0 with total_points=0 and avg_points=0, whatever the
  stored results are.
\<close>

theorem export_record_by_name:
  "all_teams sr = (\<Union>wsb \<in> set (weekly_scoreboards sr). playing (matchups (snd wsb))) \<and>
   (nm \<in> all_teams sr \<and>
    (\<forall>wsb \<in> set (weekly_scoreboards sr). \<forall>m \<in> set (matchups (snd wsb)).
       team_key (team1 m) \<noteq> nm \<and> team_key (team2 m) \<noteq> nm) \<longrightarrow>
    team_records sr nm =
      Some \<lparr> wins = 0, losses = 0, ties = 0, rec_total_points = 0, avg_points = 0 \<rparr>)"
proof (intro conjI impI)
  show "all_teams sr = (\<Union>wsb \<in> set (weekly_scoreboards sr). playing (matchups (snd wsb)))"
    by (rule all_teams_eq)
next
  assume h: "nm \<in> all_teams sr \<and>
    (\<forall>wsb \<in> set (weekly_scoreboards sr). \<forall>m \<in> set (matchups (snd wsb)).
       team_key (team1 m) \<noteq> nm \<and> team_key (team2 m) \<noteq> nm)"
  then have keys: "\<forall>wsb \<in> set (weekly_scoreboards sr). \<forall>m \<in> set (matchups (snd wsb)).
       team_key (team1 m) \<noteq> nm \<and> team_key (team2 m) \<noteq> nm" ..
  from h have "nm \<in> all_teams sr" ..
  then show "team_records sr nm =
      Some \<lparr> wins = 0, losses = 0, ties = 0, rec_total_points = 0, avg_points = 0 \<rparr>"
    using record_unchanged [OF keys] total_unchanged [OF keys]
    by (simp add: team_records_def summary_record_def get_team_record_def
        get_team_total_points_def)
qed

theorem export_record_by_name_witness:
  "''A'' \<in> all_teams named_season \<and>
   team_key (example_team ''k1'' ''A'' 1 90) = ''k1'' \<and>
   team_key (example_team ''k2'' ''B'' 1 110) = ''k2'' \<and>
   team_records named_season ''A'' =
     Some \<lparr> wins = 0, losses = 0, ties = 0, rec_total_points = 0, avg_points = 0 \<rparr>"
  using export_record_by_name [of named_season "''A''"]
  by (simp add: named_season_def season_of_def scoreboard_def played_def example_team_def
      playing_def)

section \<open>Power rankings\<close>

lemma dict_update_keys [simp]: "map fst (dict_update d k f) = map fst d"
  by (induction d k f rule: dict_update.induct) auto




    


























section \<open>The position comparator\<close>

lemma map_of_dict_append:
  "map_of (dict_append d k v) k' =
     (if k' = k then Some ((case map_of d k of None \<Rightarrow> [] | Some vs \<Rightarrow> vs) @ [v]) else map_of d k')"
  by (induction d k v rule: dict_append.induct) auto

lemma dict_append_keys: "fst ` set (dict_append d k v) = insert k (fst ` set d)"
  by (induction d k v rule: dict_append.induct) auto

lemma players_at_fold:
  "players_at (foldl (\<lambda>d p. dict_append d (selected_position p) p) d ps) pos =
     players_at d pos @ filter (\<lambda>p. selected_position p = pos) ps"
proof (induction ps arbitrary: d)
  case Nil show ?case by simp
next
  case (Cons p ps)
  show ?case
    unfolding foldl_Cons Cons.IH
    by (simp add: players_at_def map_of_dict_append split: option.splits)
qed

lemma players_at_group: "players_at (group_by_position ps) pos = filter (\<lambda>p. selected_position p = pos) ps"
  by (simp add: group_by_position_def players_at_fold) (simp add: players_at_def)

lemma keys_fold:
  "fst ` set (foldl (\<lambda>d p. dict_append d (selected_position p) p) d ps) = fst ` set d \<union> selected_position ` set ps"
  by (induction ps arbitrary: d) (auto simp: dict_append_keys)

lemma keys_group: "set (map fst (group_by_position ps)) = selected_position ` set ps"
  using keys_fold [of "[]" ps] by (simp add: group_by_position_def)

lemma all_positions_filled:
  "set (map fst (group_by_position (starters r1))) \<union> set (map fst (group_by_position (starters r2))) = filled_slots r1 r2"
  by (simp only: keys_group filled_slots_def)

lemma slot_count_occupants:
  "slot_count (group_by_position (starters r1)) (group_by_position (starters r2)) pos =
     max (length (occupants r1 pos)) (length (occupants r2 pos))"
  by (simp add: slot_count_def players_at_group occupants_def)

lemma occupants_empty: "pos \<notin> filled_slots r1 r2 \<Longrightarrow> occupants r1 pos = [] \<and> occupants r2 pos = []"
  by (auto simp: filled_slots_def occupants_def filter_empty_conv)

lemma concat_map_if: "concat (map (\<lambda>x. if P x then f x else []) xs) = concat (map f (filter P xs))"
  by (induction xs) simp_all

lemma sorted_positions_blocks:
  "sorted_positions it (group_by_position (starters r1)) (group_by_position (starters r2)) =
     concat (map (\<lambda>pos. replicate (max (length (occupants r1 pos)) (length (occupants r2 pos))) pos)
       (slots_of it r1 r2))"
proof -
  have known: "(if pos \<in> filled_slots r1 r2
          then replicate (max (length (occupants r1 pos)) (length (occupants r2 pos))) pos else [])
        = replicate (max (length (occupants r1 pos)) (length (occupants r2 pos))) pos" for pos
    using occupants_empty [of pos r1 r2] by simp
  show ?thesis
    unfolding sorted_positions_def Let_def all_positions_filled slot_count_occupants known slots_of_def
    by (simp add: concat_map_if)
qed

lemma pair_slot_pairing:
  "pair_slot (group_by_position (starters r1)) (group_by_position (starters r2)) (cs, ms) pos =
     (cs(pos \<mapsto> count_of cs pos + 1), ms @ [pairing r1 r2 pos (count_of cs pos)])"
  by (simp add: pair_slot_def pairing_def players_at_group occupants_def Let_def)

lemma pair_block:
  "foldl (pair_slot (group_by_position (starters r1)) (group_by_position (starters r2))) (cs, ms) (replicate k pos) =
     (if k = 0 then (cs, ms)
      else (cs(pos \<mapsto> count_of cs pos + k), ms @ map (pairing r1 r2 pos) [count_of cs pos ..< count_of cs pos + k]))"
proof (induction k arbitrary: cs ms)
  case 0 show ?case by simp
next
  case (Suc k)
  show ?case
    unfolding replicate_Suc foldl_Cons pair_slot_pairing Suc.IH
    by (cases k) (simp_all add: count_of_def upt_rec [of "case cs pos of None \<Rightarrow> 0 | Some c \<Rightarrow> c"])
qed

lemma pair_blocks:
  assumes "distinct slots" "\<forall>pos \<in> set slots. count_of cs pos = 0"
  shows "snd (foldl (pair_slot (group_by_position (starters r1)) (group_by_position (starters r2))) (cs, ms)
            (concat (map (\<lambda>pos. replicate (n pos) pos) slots))) =
         ms @ concat (map (\<lambda>pos. map (pairing r1 r2 pos) [0 ..< n pos]) slots)"
  using assms
proof (induction slots arbitrary: cs ms)
  case Nil show ?case by simp
next
  case (Cons pos slots)
  let ?step = "pair_slot (group_by_position (starters r1)) (group_by_position (starters r2))"
  from Cons.prems have c0: "count_of cs pos = 0" by simp
  show ?case
  proof (cases "n pos = 0")
    case True
    with Cons show ?thesis by simp
  next
    case False
    have rest: "\<forall>p \<in> set slots. count_of (cs(pos \<mapsto> n pos)) p = 0"
      using Cons.prems by (auto simp: count_of_def)
    from Cons.prems have d: "distinct slots" by simp
    have block: "foldl ?step (cs, ms) (replicate (n pos) pos) =
        (cs(pos \<mapsto> n pos), ms @ map (pairing r1 r2 pos) [0 ..< n pos])"
      using False by (simp only: pair_block c0) simp
    have "snd (foldl ?step (cs, ms) (concat (map (\<lambda>pos. replicate (n pos) pos) (pos # slots)))) =
          snd (foldl ?step (cs(pos \<mapsto> n pos), ms @ map (pairing r1 r2 pos) [0 ..< n pos])
                 (concat (map (\<lambda>pos. replicate (n pos) pos) slots)))"
      by (simp only: list.map concat.simps foldl_append block)
    also have "\<dots> = (ms @ map (pairing r1 r2 pos) [0 ..< n pos])
                     @ concat (map (\<lambda>pos. map (pairing r1 r2 pos) [0 ..< n pos]) slots)"
      by (rule Cons.IH [OF d rest])
    finally show ?thesis by simp
  qed
qed

lemma position_order_distinct: "distinct position_order"
  by (simp add: position_order_def)

lemma slots_distinct: "distinct (it (filled_slots r1 r2)) \<Longrightarrow> distinct (slots_of it r1 r2)"
  by (auto simp: slots_of_def position_order_distinct)

lemma starter_matchups_create:
  assumes "distinct (it (filled_slots r1 r2))"
  shows "starter_matchups (create it r1 r2 wk mid) =
     concat (map (\<lambda>pos. map (pairing r1 r2 pos) [0 ..< max (length (occupants r1 pos)) (length (occupants r2 pos))])
        (slots_of it r1 r2))"
proof -
  have "\<forall>pos \<in> set (slots_of it r1 r2). count_of Map.empty pos = 0" by (simp add: count_of_def)
  from pair_blocks [OF slots_distinct [of it r1 r2, OF assms] this, of r1 r2 "[]"]
  show ?thesis by (simp add: create_def sorted_positions_blocks)
qed

lemma starter_positions:
  assumes "distinct (it (filled_slots r1 r2))"
  shows "map pm_position (starter_matchups (create it r1 r2 wk mid)) =
     concat (map (\<lambda>pos. replicate (max (length (occupants r1 pos)) (length (occupants r2 pos))) pos)
        (slots_of it r1 r2))"
proof -
  have "map pm_position (map (pairing r1 r2 pos) [0 ..< k]) = replicate k pos" for pos k
    by (simp add: pairing_def comp_def map_replicate_const)
  then show ?thesis
    unfolding starter_matchups_create [of it r1 r2, OF assms]
    by (simp add: map_concat comp_def)
qed

lemma filled_iff_occupied:
  "pos \<in> filled_slots r1 r2 \<longleftrightarrow> occupants r1 pos \<noteq> [] \<or> occupants r2 pos \<noteq> []"
  by (auto simp: filled_slots_def occupants_def filter_empty_conv)

lemma slots_set:
  "set (it (filled_slots r1 r2)) = filled_slots r1 r2 \<Longrightarrow>
   set (slots_of it r1 r2) = set position_order \<union> filled_slots r1 r2"
  unfolding slots_of_def by auto

lemma positions_cover:
  assumes "set (it (filled_slots r1 r2)) = filled_slots r1 r2" "distinct (it (filled_slots r1 r2))"
  shows "set (map pm_position (starter_matchups (create it r1 r2 wk mid))) = filled_slots r1 r2"
proof -
  have "set (map pm_position (starter_matchups (create it r1 r2 wk mid))) =
        {pos \<in> set (slots_of it r1 r2). occupants r1 pos \<noteq> [] \<or> occupants r2 pos \<noteq> []}"
    unfolding starter_positions [of it r1 r2, OF assms(2)]
    by (auto simp: set_replicate_conv_if split: if_splits)
  also have "\<dots> = {pos \<in> set position_order \<union> filled_slots r1 r2. pos \<in> filled_slots r1 r2}"
    by (simp only: slots_set [of it r1 r2, OF assms(1)] filled_iff_occupied)
  also have "\<dots> = filled_slots r1 r2" by blast
  finally show ?thesis .
qed

lemmas create_example_simps =
  create_def group_by_position_def sorted_positions_def position_order_def slot_count_def
  players_at_def pair_slot_def count_of_def nth_or_none_def bench_pairs_def
  two_backs_def one_back_def defenders_def nobody_def roster_of_def new_TeamRoster_def
  example_player_def

text \<open>
  C7, as stated, fails for the position codes outside the standard order: they are
  appended in the order in which the set of positions is iterated, which is not the order
  in which they were first seen. The starters of \<open>defenders\<close> fill \<open>DB\<close> and then \<open>LB\<close>;
  \<open>LB, DB\<close> lists the elements of the set of the two, each once, and with that iteration
  order the slots are paired as \<open>LB\<close>, then \<open>DB\<close>.
\<close>

theorem create_unrecognized_order_counterexample:
  "set [''LB'', ''DB''] = filled_slots defenders nobody \<and>
   distinct [''LB'', ''DB''] \<and>
   first_seen defenders nobody = [''DB'', ''LB''] \<and>
   map pm_position (starter_matchups (create (\<lambda>S. [''LB'', ''DB'']) defenders nobody 1 None))
     = [''LB'', ''DB'']"
  by (simp add: create_example_simps filled_slots_def first_seen_def) auto

text \<open>
  C7, amended. Starters are grouped by selected position. The slots are paired in the
  order QB, RB, WR, TE, W/R/T, K, DEF, IR, followed by the other position codes in the
  iteration order of the set of positions, which is any order that lists each code once;
  every filled slot is paired and no other. Within a slot the \<open>i\<close>-th occupant of team 1
  meets the \<open>i\<close>-th occupant of team 2, up to the larger of the two counts, a missing
  occupant being null; the points difference of a pairing is the points of team 1's
  player less those of team 2's, a null player counting 0. With running backs on 10 and
  5 points against one on 8 there are exactly two RB pairings, and the second sets the
  5-point back against null, with a difference of 5.
\<close>

theorem create_pairs_slots:
  "position_order = [''QB'', ''RB'', ''WR'', ''TE'', ''W/R/T'', ''K'', ''DEF'', ''IR''] \<and>
   (distinct (set_iter (filled_slots r1 r2)) \<longrightarrow>
      starter_matchups (create set_iter r1 r2 wk mid) =
        concat (map (\<lambda>pos. map (pairing r1 r2 pos)
                       [0 ..< max (length (occupants r1 pos)) (length (occupants r2 pos))])
          (position_order @
           filter (\<lambda>pos. pos \<notin> set position_order) (set_iter (filled_slots r1 r2))))) \<and>
   (set (set_iter (filled_slots r1 r2)) = filled_slots r1 r2 \<and>
    distinct (set_iter (filled_slots r1 r2)) \<longrightarrow>
      set (map pm_position (starter_matchups (create set_iter r1 r2 wk mid)))
        = filled_slots r1 r2) \<and>
   points_difference pm =
     (case team1_player pm of Some p \<Rightarrow> ps_points p | None \<Rightarrow> 0)
     - (case team2_player pm of Some p \<Rightarrow> ps_points p | None \<Rightarrow> 0) \<and>
   starter_matchups (create (\<lambda>S. [''RB'']) two_backs one_back 1 None) =
     [\<lparr> pm_position = ''RB'',
        team1_player = Some (example_player ''p1'' ''Joe'' ''RB'' 10 True),
        team2_player = Some (example_player ''p3'' ''Cy'' ''RB'' 8 True) \<rparr>,
      \<lparr> pm_position = ''RB'',
        team1_player = Some (example_player ''p2'' ''Al'' ''RB'' 5 True),
        team2_player = None \<rparr>] \<and>
   points_difference
     \<lparr> pm_position = ''RB'',
       team1_player = Some (example_player ''p2'' ''Al'' ''RB'' 5 True),
       team2_player = None \<rparr> = 5"
proof -
  have order: "position_order = [''QB'', ''RB'', ''WR'', ''TE'', ''W/R/T'', ''K'', ''DEF'', ''IR'']"
    by (rule position_order_def)
  have pairs: "distinct (set_iter (filled_slots r1 r2)) \<longrightarrow>
      starter_matchups (create set_iter r1 r2 wk mid) =
        concat (map (\<lambda>pos. map (pairing r1 r2 pos)
                       [0 ..< max (length (occupants r1 pos)) (length (occupants r2 pos))])
          (position_order @
           filter (\<lambda>pos. pos \<notin> set position_order) (set_iter (filled_slots r1 r2))))"
    using starter_matchups_create [of set_iter r1 r2 wk mid] by (simp only: slots_of_def) blast
  have cover: "set (set_iter (filled_slots r1 r2)) = filled_slots r1 r2 \<and>
    distinct (set_iter (filled_slots r1 r2)) \<longrightarrow>
      set (map pm_position (starter_matchups (create set_iter r1 r2 wk mid)))
        = filled_slots r1 r2"
    using positions_cover [of set_iter r1 r2 wk mid] by blast
  have diff: "points_difference pm =
     (case team1_player pm of Some p \<Rightarrow> ps_points p | None \<Rightarrow> 0)
     - (case team2_player pm of Some p \<Rightarrow> ps_points p | None \<Rightarrow> 0)"
    by (rule points_difference_def)
  have ex: "starter_matchups (create (\<lambda>S. [''RB'']) two_backs one_back 1 None) =
     [\<lparr> pm_position = ''RB'',
        team1_player = Some (example_player ''p1'' ''Joe'' ''RB'' 10 True),
        team2_player = Some (example_player ''p3'' ''Cy'' ''RB'' 8 True) \<rparr>,
      \<lparr> pm_position = ''RB'',
        team1_player = Some (example_player ''p2'' ''Al'' ''RB'' 5 True),
        team2_player = None \<rparr>]"
    by (simp add: create_example_simps)
  have five: "points_difference
     \<lparr> pm_position = ''RB'',
       team1_player = Some (example_player ''p2'' ''Al'' ''RB'' 5 True),
       team2_player = None \<rparr> = 5"
    by (simp add: points_difference_def example_player_def)
  from order pairs cover diff ex five show ?thesis by blast
qed

theorem create_pairs_slots_witness:
  "set [''K'', ''W/R''] = filled_slots
     (roster_of ''A'' [example_player ''p6'' ''Flo'' ''W/R'' 7 True])
     (roster_of ''B'' [example_player ''p7'' ''Gus'' ''K'' 9 True,
                       example_player ''p8'' ''Hal'' ''W/R'' 2 True]) \<and>
   distinct [''K'', ''W/R''] \<and>
   starter_matchups
     (create (\<lambda>S. [''K'', ''W/R''])
        (roster_of ''A'' [example_player ''p6'' ''Flo'' ''W/R'' 7 True])
        (roster_of ''B'' [example_player ''p7'' ''Gus'' ''K'' 9 True,
                          example_player ''p8'' ''Hal'' ''W/R'' 2 True]) 1 None) =
     [\<lparr> pm_position = ''K'', team1_player = None,
        team2_player = Some (example_player ''p7'' ''Gus'' ''K'' 9 True) \<rparr>,
      \<lparr> pm_position = ''W/R'',
        team1_player = Some (example_player ''p6'' ''Flo'' ''W/R'' 7 True),
        team2_player = Some (example_player ''p8'' ''Hal'' ''W/R'' 2 True) \<rparr>] \<and>
   points_difference
     \<lparr> pm_position = ''K'', team1_player = None,
       team2_player = Some (example_player ''p7'' ''Gus'' ''K'' 9 True) \<rparr> = - 9"
  using create_pairs_slots
    [of "\<lambda>S. [''K'', ''W/R'']"
        "roster_of ''A'' [example_player ''p6'' ''Flo'' ''W/R'' 7 True]"
        "roster_of ''B'' [example_player ''p7'' ''Gus'' ''K'' 9 True,
                          example_player ''p8'' ''Hal'' ''W/R'' 2 True]"
        1 None
        "\<lparr> pm_position = ''K'', team1_player = None,
           team2_player = Some (example_player ''p7'' ''Gus'' ''K'' 9 True) \<rparr>"]
  by (simp add: create_example_simps filled_slots_def points_difference_def)

end
